theory Spec2Isabelle
  imports Complex_Main "HOL-Library.AList" "HOL-Library.Multiset"
begin

section \<open>Kronos: the Modeler orchestration class\<close>

text \<open>
  A shallow embedding of \<^verbatim>\<open>kronos/modeler.py\<close> (class \<^verbatim>\<open>Modeler\<close>) and of the
  older \<^verbatim>\<open>mlf_project/modeler.py\<close>.

  Conventions of the embedding:
  \<^item> dates are day numbers (\<open>int\<close>), so that \<^verbatim>\<open>(d1 - d2).days\<close> is \<open>d1 - d2\<close> and
    \<^verbatim>\<open>d + timedelta(days=x)\<close> is \<open>d + x\<close>;
  \<^item> floating-point numbers are idealised as \<open>real\<close>. IEEE results that are not
    numbers (a division by zero, the mean of an empty array, the standard deviation of
    a single value) have no counterpart in \<open>real\<close>; theorems that depend on such a
    quotient carry the hypothesis that excludes it;
  \<^item> a Python exception is a value of \<open>py_error\<close>, and a function that may raise returns
    \<open>py_error + 'a\<close>; a method that catches everything and falls off its end returns
    Python's \<^verbatim>\<open>None\<close>, modelled by \<open>option\<close>;
  \<^item> the process-wide logger is a list of log events (error and warning level only),
    returned or threaded through the state, for the methods whose logging matters to a
    property below (evaluation, split, training, competition);
  \<^item> collaborators outside the class (the model backends, the tracking service, the
    registry) are a record \<open>environment\<close> of call outcomes, over which every theorem
    is universally quantified;
  \<^item> a \<^verbatim>\<open>dict\<close> whose order matters is an association list in insertion order.
\<close>

subsection \<open>Exceptions and log events\<close>

datatype py_error =
    InsufficientData      \<comment> \<open>\<^verbatim>\<open>Exception("### Not enough records to perform train/test split ...")\<close>\<close>
  | ValueError
  | TypeError
  | KeyError
  | IndexError
  | AttributeError
  | ExternalFailure       \<comment> \<open>an exception raised by a collaborator outside this class\<close>

datatype log_event =
    MetricNotSupported string                \<comment> \<open>\<^verbatim>\<open>Requested metric ... is not supported\<close>\<close>
  | EvaluationFailed "string list" py_error  \<comment> \<open>\<^verbatim>\<open>Model evaluation with metrics ...: e\<close>\<close>
  | SplitNotEnoughRecords nat int            \<comment> \<open>the warning before the raise in the split\<close>
  | SplitFailed py_error                     \<comment> \<open>\<^verbatim>\<open>Train test split failed: e\<close>\<close>
  | ModelTrainingFailed string py_error      \<comment> \<open>\<^verbatim>\<open>Model {model_name} training failed: e\<close>\<close>
  | TrainingFailed py_error                  \<comment> \<open>\<^verbatim>\<open>Training failed: e\<close>\<close>
  | CompetitionFailed py_error               \<comment> \<open>\<^verbatim>\<open>Competition failed: e\<close>\<close>

subsection \<open>One-dimensional numpy arrays\<close>

text \<open>
  An elementwise binary operation on two one-dimensional arrays: equal lengths pair
  the elements, an array of length one is broadcast, and any other pair of shapes
  raises \<^verbatim>\<open>ValueError: operands could not be broadcast together\<close>.
\<close>

definition np_binop :: "(real \<Rightarrow> real \<Rightarrow> real) \<Rightarrow> real list \<Rightarrow> real list \<Rightarrow> py_error + real list" where
  "np_binop f xs ys =
     (if length xs = length ys then Inr (map2 f xs ys)
      else if length xs = 1 then Inr (map (f (hd xs)) ys)
      else if length ys = 1 then Inr (map (\<lambda>x. f x (hd ys)) xs)
      else Inl ValueError)"

definition np_mean :: "real list \<Rightarrow> real" where
  "np_mean xs = sum_list xs / real (length xs)"

subsection \<open>\<^verbatim>\<open>Modeler.evaluate_model\<close>\<close>

definition supported_metrics :: "string list" where
  "supported_metrics = [''rmse'', ''mape'']"

text \<open>\<^verbatim>\<open>str.lower\<close> on the ASCII letters; other characters are left as they are.\<close>

definition lower_char :: "char \<Rightarrow> char" where
  "lower_char c =
     (case map_of (zip ''ABCDEFGHIJKLMNOPQRSTUVWXYZ'' ''abcdefghijklmnopqrstuvwxyz'') c of
        Some l \<Rightarrow> l
      | None \<Rightarrow> c)"

text \<open>\<^verbatim>\<open>metric.lower().replace(" ", "")\<close>\<close>

definition normalise_metric :: "string \<Rightarrow> string" where
  "normalise_metric metric = filter (\<lambda>c. c \<noteq> CHR '' '') (map lower_char metric)"

text \<open>\<^verbatim>\<open>((actual - pred) ** 2).mean() ** 0.5\<close>\<close>

definition rmse :: "real list \<Rightarrow> real list \<Rightarrow> py_error + real" where
  "rmse actual pred =
     (case np_binop (-) actual pred of
        Inl e \<Rightarrow> Inl e
      | Inr d \<Rightarrow> Inr (sqrt (np_mean (map (\<lambda>x. x\<^sup>2) d))))"

text \<open>\<^verbatim>\<open>(np.abs((actual - pred) / actual)).mean() * 100\<close>\<close>

definition mape :: "real list \<Rightarrow> real list \<Rightarrow> py_error + real" where
  "mape actual pred =
     (case np_binop (-) actual pred of
        Inl e \<Rightarrow> Inl e
      | Inr d \<Rightarrow>
          (case np_binop (/) d actual of
             Inl e \<Rightarrow> Inl e
           | Inr q \<Rightarrow> Inr (np_mean (map abs q) * 100)))"

text \<open>
  The body of the \<^verbatim>\<open>try\<close>: the loop over the requested metrics, with the dictionary
  \<^verbatim>\<open>out\<close> and the log as accumulators. The source's last branch
  (\<^verbatim>\<open>value = np.Inf\<close>) is taken by no metric, since a supported metric is
  \<^verbatim>\<open>rmse\<close> or \<^verbatim>\<open>mape\<close>; the model folds it into the \<^verbatim>\<open>mape\<close> branch.
\<close>

fun evaluate_loop ::
  "real list \<Rightarrow> real list \<Rightarrow> string list \<Rightarrow> log_event list \<times> (string \<times> real) list
     \<Rightarrow> log_event list \<times> (py_error + (string \<times> real) list)" where
  "evaluate_loop actual pred [] (lg, out) = (lg, Inr out)"
| "evaluate_loop actual pred (m # ms) (lg, out) =
     (let metric = normalise_metric m in
      if metric \<notin> set supported_metrics
      then evaluate_loop actual pred ms (lg @ [MetricNotSupported metric], out)
      else
        (case (if metric = ''rmse'' then rmse actual pred else mape actual pred) of
           Inl e \<Rightarrow> (lg, Inl e)
         | Inr v \<Rightarrow> evaluate_loop actual pred ms (lg, AList.update metric v out)))"

text \<open>
  The method: the \<^verbatim>\<open>except\<close> clause logs the exception and falls off the end, so the
  caller receives \<^verbatim>\<open>None\<close>.
\<close>

definition evaluate_model ::
  "real list \<Rightarrow> real list \<Rightarrow> string list \<Rightarrow> log_event list \<times> (string \<times> real) list option" where
  "evaluate_model actual pred metrics =
     (case evaluate_loop actual pred metrics ([], []) of
        (lg, Inr out) \<Rightarrow> (lg, Some out)
      | (lg, Inl e) \<Rightarrow> (lg @ [EvaluationFailed metrics e], None))"


subsection \<open>The time series and Python slices\<close>

record obs =
  obs_key :: string
  obs_date :: int
  obs_metric :: real

text \<open>
  \<^verbatim>\<open>sort_values(by=[date_col], ascending=False)\<close>: rows in descending date order.
  Rows of equal date keep their relative order.
\<close>

definition sort_values_desc :: "obs list \<Rightarrow> obs list" where
  "sort_values_desc df = sort_key (\<lambda>r. - obs_date r) df"

text \<open>
  A bound \<open>i\<close> of a slice of a sequence of length \<open>n\<close>: a negative bound counts from
  the end, and every bound is clipped to the sequence.
\<close>

definition slice_bound :: "int \<Rightarrow> nat \<Rightarrow> nat" where
  "slice_bound i n = (if i < 0 then nat (max (int n + i) 0) else min (nat i) n)"

text \<open>\<^verbatim>\<open>.iloc[i:, :]\<close> and \<^verbatim>\<open>.iloc[:i, :]\<close>\<close>

definition iloc_from :: "int \<Rightarrow> 'a list \<Rightarrow> 'a list" where
  "iloc_from i xs = drop (slice_bound i (length xs)) xs"

definition iloc_upto :: "int \<Rightarrow> 'a list \<Rightarrow> 'a list" where
  "iloc_upto i xs = take (slice_bound i (length xs)) xs"

subsection \<open>\<^verbatim>\<open>mlf_project\<close>: the static \<^verbatim>\<open>Modeler.train_test_split\<close>\<close>

definition mlf_train_test_split ::
  "obs list \<Rightarrow> int \<Rightarrow> log_event list \<times> (py_error + obs list \<times> obs list)" where
  "mlf_train_test_split data_frame n =
     (if int (length data_frame) - n < n
      then ([SplitNotEnoughRecords (length data_frame) n], Inl InsufficientData)
      else ([], Inr (iloc_from n (sort_values_desc data_frame),
                     iloc_upto n (sort_values_desc data_frame))))"

subsection \<open>The state of a \<^verbatim>\<open>Modeler\<close>\<close>

type_synonym model_config = "(string \<times> string) list"

text \<open>
  The performance table \<^verbatim>\<open>df_performances\<close>, column by column: the index
  (\<^verbatim>\<open>model_name\<close>), the columns \<^verbatim>\<open>model_config\<close> and \<^verbatim>\<open>run_id\<close>, one column per
  competition metric under its name, and the column \<^verbatim>\<open>error_avg\<close> once the competition
  has added it. The column \<^verbatim>\<open>model\<close> holds the backend object, which no method reads
  back; it is left out.
\<close>

record perf_table =
  row_names :: "string list"
  col_model_config :: "model_config option list"
  col_run_id :: "string option list"
  metric_cols :: "(string \<times> real list) list"
  col_error_avg :: "real list option"

record modeler =
  data :: "obs list"
  models_config :: "(string \<times> model_config) list"
  current_date :: int
  fcst_first_date :: int
  n_test :: int
  n_unit_test :: int
  fcst_horizon :: int
  fcst_competition_metrics :: "string list"
  fcst_competition_metric_weights :: "real list"
  future_only :: bool
  key_code :: string
  train_data :: "obs list option"
  test_data :: "obs list option"
  df_performances :: perf_table
  winning_model_name :: "string option"
  logger :: "log_event list"

text \<open>The empty table that \<^verbatim>\<open>__init__\<close> creates.\<close>

definition empty_performances :: "string list \<Rightarrow> perf_table" where
  "empty_performances metrics =
     \<lparr>row_names = [], col_model_config = [], col_run_id = [],
      metric_cols = map (\<lambda>m. (m, [])) metrics, col_error_avg = None\<rparr>"

subsection \<open>\<^verbatim>\<open>kronos\<close>: \<^verbatim>\<open>Modeler.train_test_split\<close>\<close>

text \<open>The body of the \<^verbatim>\<open>try\<close>.\<close>

definition train_test_split_try :: "modeler \<Rightarrow> log_event list \<times> (py_error + modeler)" where
  "train_test_split_try self =
     (if int (length (data self)) - n_test self < n_test self
      then ([SplitNotEnoughRecords (length (data self)) (n_test self)], Inl InsufficientData)
      else ([], Inr (self\<lparr>
                train_data := Some (iloc_from (n_test self) (sort_values_desc (data self))),
                test_data := Some (iloc_upto (n_test self) (sort_values_desc (data self)))\<rparr>)))"

text \<open>
  The method: \<^verbatim>\<open>except Exception as e\<close> logs the failure and the method returns
  normally.
\<close>

definition train_test_split :: "modeler \<Rightarrow> modeler" where
  "train_test_split self =
     (case train_test_split_try self of
        (lg, Inr self') \<Rightarrow> self'\<lparr>logger := logger self' @ lg\<rparr>
      | (lg, Inl e) \<Rightarrow> self\<lparr>logger := logger self @ lg @ [SplitFailed e]\<rparr>)"

subsection \<open>\<^verbatim>\<open>Modeler.competition\<close>\<close>

text \<open>
  \<^verbatim>\<open>Series.mean()\<close> and \<^verbatim>\<open>Series.std()\<close>; the latter is the sample standard
  deviation (one degree of freedom removed). For a column of fewer than two values
  pandas gives no number, and for a constant column zero, by which the loop below then
  divides: the definitions agree with the floating-point computation on the columns
  whose standard deviation is a number other than zero, and the properties of the
  competition are stated for those.
\<close>

definition series_mean :: "real list \<Rightarrow> real" where
  "series_mean xs = sum_list xs / real (length xs)"

definition series_std :: "real list \<Rightarrow> real" where
  "series_std xs =
     sqrt (sum_list (map (\<lambda>x. (x - series_mean xs)\<^sup>2) xs) / (real (length xs) - 1))"

text \<open>
  The first loop of the \<^verbatim>\<open>try\<close>: each metric column is overwritten in place, so the
  columns already rewritten stay rewritten when a later metric raises
  (\<^verbatim>\<open>KeyError\<close> for a name that is no column).
\<close>

fun standardize_loop :: "string list \<Rightarrow> perf_table \<Rightarrow> py_error option \<times> perf_table" where
  "standardize_loop [] df = (None, df)"
| "standardize_loop (metric # metrics) df =
     (case map_of (metric_cols df) metric of
        None \<Rightarrow> (Some KeyError, df)
      | Some col \<Rightarrow>
          (let mean = series_mean col; std = series_std col
           in standardize_loop metrics
                (df\<lparr>metric_cols :=
                      AList.update metric (map (\<lambda>x. x - mean / std) col) (metric_cols df)\<rparr>)))"

text \<open>
  The function applied to every row (\<^verbatim>\<open>axis=1\<close>): the row's metric values, in the order
  of \<^verbatim>\<open>fcst_competition_metrics\<close>, times the array of weights, summed and divided by the
  sum of the weights.
\<close>

definition row_error_avg :: "string list \<Rightarrow> real list \<Rightarrow> perf_table \<Rightarrow> nat \<Rightarrow> py_error + real" where
  "row_error_avg metrics weights df i =
     (case those (map (map_of (metric_cols df)) metrics) of
        None \<Rightarrow> Inl KeyError
      | Some cols \<Rightarrow>
          (case np_binop (*) (map (\<lambda>col. col ! i) cols) weights of
             Inl e \<Rightarrow> Inl e
           | Inr products \<Rightarrow> Inr (sum_list products / sum_list weights)))"

fun collect :: "(py_error + 'a) list \<Rightarrow> py_error + 'a list" where
  "collect [] = Inr []"
| "collect (Inl e # rs) = Inl e"
| "collect (Inr x # rs) = (case collect rs of Inl e \<Rightarrow> Inl e | Inr xs \<Rightarrow> Inr (x # xs))"

definition compute_error_avg :: "string list \<Rightarrow> real list \<Rightarrow> perf_table \<Rightarrow> py_error + real list" where
  "compute_error_avg metrics weights df =
     collect (map (row_error_avg metrics weights df) [0..<length (row_names df)])"

text \<open>
  \<^verbatim>\<open>argmin\<close>: one pass that keeps the position of the smallest value seen so far and
  moves only on a strictly smaller one; an empty sequence raises \<^verbatim>\<open>ValueError\<close>.
\<close>

fun argmin_scan :: "real list \<Rightarrow> nat \<Rightarrow> real \<Rightarrow> nat \<Rightarrow> nat" where
  "argmin_scan [] i best best_i = best_i"
| "argmin_scan (x # xs) i best best_i =
     (if x < best then argmin_scan xs (Suc i) x i else argmin_scan xs (Suc i) best best_i)"

definition argmin :: "real list \<Rightarrow> py_error + nat" where
  "argmin xs = (case xs of [] \<Rightarrow> Inl ValueError | x # xs' \<Rightarrow> Inr (argmin_scan xs' 1 x 0))"

definition competition :: "modeler \<Rightarrow> modeler" where
  "competition self =
     (case standardize_loop (fcst_competition_metrics self) (df_performances self) of
        (Some e, df1) \<Rightarrow>
          self\<lparr>df_performances := df1, logger := logger self @ [CompetitionFailed e]\<rparr>
      | (None, df1) \<Rightarrow>
          (case compute_error_avg (fcst_competition_metrics self)
                  (fcst_competition_metric_weights self) df1 of
             Inl e \<Rightarrow>
               self\<lparr>df_performances := df1, logger := logger self @ [CompetitionFailed e]\<rparr>
           | Inr avg \<Rightarrow>
               (let df2 = df1\<lparr>col_error_avg := Some avg\<rparr> in
                case argmin avg of
                  Inl e \<Rightarrow>
                    self\<lparr>df_performances := df2, logger := logger self @ [CompetitionFailed e]\<rparr>
                | Inr i \<Rightarrow>
                    self\<lparr>df_performances := df2,
                         winning_model_name := Some (row_names df2 ! i)\<rparr>)))"

subsection \<open>Collaborators: backends, tracking service, registry\<close>

record fcst_row =
  f_date :: int
  f_value :: real

text \<open>
  A backend instance (\<^verbatim>\<open>KRNSProphet\<close>, \<^verbatim>\<open>KRNSPmdarima\<close>, \<^verbatim>\<open>KRNSTensorflow\<close>): its
  flavor, the fitted model it wraps, and what each of its methods does when the
  orchestrator calls it. \<^verbatim>\<open>predict\<close> takes the number of days, the first forecast date
  (\<open>None\<close> for the not-a-number that the minimum of an empty column is) and
  \<^verbatim>\<open>future_only\<close>; it raises, returns \<^verbatim>\<open>None\<close> (as the tensorflow backend does after a
  failure of its own) or returns the frame of dates and forecasts.
\<close>

record krns_model =
  krns_flavor :: string
  krns_trained :: "nat option"
  preprocess :: "py_error option"
  log_params :: "py_error option"
  fit :: "py_error option"
  log_model :: "py_error option"
  predict :: "int \<Rightarrow> int option \<Rightarrow> bool \<Rightarrow> py_error + fcst_row list option"

text \<open>
  The outcomes of the calls that leave the class; \<open>None\<close> in a \<open>py_error option\<close> is
  a call that returns normally. \<open>start_run\<close> is indexed by the model whose iteration
  makes the call, since the run name is the time of the call.
\<close>

record environment =
  today :: int
  get_experiment :: "string \<Rightarrow> py_error option"
  start_run :: "string \<Rightarrow> py_error + string"
  log_metric :: "string \<Rightarrow> string \<Rightarrow> real \<Rightarrow> py_error option"
  load_model :: "string \<Rightarrow> py_error + nat \<times> string"
  new_backend :: "string \<Rightarrow> model_config \<Rightarrow> nat option \<Rightarrow> py_error + krns_model"
  register_model :: "string \<Rightarrow> string \<Rightarrow> py_error option"
  set_model_tag :: "string \<Rightarrow> py_error option"
  promote_model :: "string \<Rightarrow> py_error option"

datatype stage = Unregistered | Staging | Production | Archived

text \<open>
  What the tracking service and the registry hold for this key: the open run, the
  closed runs, the logged metrics, and the stage of every model version.
\<close>

record ml_flower =
  active_run :: "string option"
  ended_runs :: "string list"
  logged_metrics :: "(string \<times> string \<times> real) list"
  next_version :: nat
  stage_of :: "nat \<Rightarrow> stage"

record model_version =
  mv_name :: string
  mv_version :: nat
  mv_current_stage :: string
  mv_status :: string

text \<open>
  Modelled from the spec: \<^verbatim>\<open>MLFlower.start_run\<close> and \<^verbatim>\<open>MLFlower.end_run\<close>
  (\<^verbatim>\<open>kronos/ml_flower.py\<close> is not among the sources). The interface is
  \<^verbatim>\<open>startRun(name) \<rightarrow> runHandle/runId\<close> and \<^verbatim>\<open>endRun()\<close>: the first opens a run, the
  second closes the open run, if any.
\<close>

definition mlf_start_run :: "string \<Rightarrow> ml_flower \<Rightarrow> ml_flower" where
  "mlf_start_run run_id mlf = mlf\<lparr>active_run := Some run_id\<rparr>"

definition mlf_end_run :: "ml_flower \<Rightarrow> ml_flower" where
  "mlf_end_run mlf =
     (case active_run mlf of
        None \<Rightarrow> mlf
      | Some r \<Rightarrow> mlf\<lparr>active_run := None, ended_runs := ended_runs mlf @ [r]\<rparr>)"

text \<open>
  Modelled from the spec: \<^verbatim>\<open>MLFlower.register_model\<close> and \<^verbatim>\<open>MLFlower.promote_model\<close>
  (\<^verbatim>\<open>kronos/ml_flower.py\<close> is not among the sources). Registration creates a new
  version, in no stage yet. A promotion with \<^verbatim>\<open>archive_existing_versions=True\<close> moves the
  version to the stage, and "any prior version occupying a stage being entered is moved
  to Archived atomically by the registry".
\<close>

definition mlf_register_model :: "string \<Rightarrow> ml_flower \<Rightarrow> model_version \<times> ml_flower" where
  "mlf_register_model name mlf =
     (\<lparr>mv_name = name, mv_version = next_version mlf,
       mv_current_stage = ''None'', mv_status = ''READY''\<rparr>,
      mlf\<lparr>next_version := Suc (next_version mlf),
          stage_of := (stage_of mlf)(next_version mlf := Unregistered)\<rparr>)"

definition stage_name :: "stage \<Rightarrow> string" where
  "stage_name s =
     (case s of Unregistered \<Rightarrow> ''None'' | Staging \<Rightarrow> ''Staging''
      | Production \<Rightarrow> ''Production'' | Archived \<Rightarrow> ''Archived'')"

definition mlf_promote_model :: "model_version \<Rightarrow> stage \<Rightarrow> ml_flower \<Rightarrow> model_version \<times> ml_flower" where
  "mlf_promote_model mv s mlf =
     (mv\<lparr>mv_current_stage := stage_name s\<rparr>,
      mlf\<lparr>stage_of := (\<lambda>v. if v = mv_version mv then s
                           else if stage_of mlf v = s then Archived
                           else stage_of mlf v)\<rparr>)"

subsection \<open>\<^verbatim>\<open>Modeler.model_generation\<close> and \<^verbatim>\<open>Modeler.create_all_models\<close>\<close>

text \<open>\<^verbatim>\<open>model_config.get(key, default)\<close>\<close>

definition config_get :: "model_config \<Rightarrow> string \<Rightarrow> string \<Rightarrow> string" where
  "config_get cfg k d = (case map_of cfg k of None \<Rightarrow> d | Some v \<Rightarrow> v)"

text \<open>
  The dispatch on the flavor. A flavor outside the three raises \<^verbatim>\<open>ValueError\<close>, and so
  does the tensorflow constructor for a network type it does not know; every exception,
  the constructors' included, is caught and the method returns \<^verbatim>\<open>None\<close>.
\<close>

definition model_generation ::
  "environment \<Rightarrow> string \<Rightarrow> model_config \<Rightarrow> nat option \<Rightarrow> krns_model option" where
  "model_generation env model_flavor cfg trained =
     (case (if model_flavor = ''prophet'' then new_backend env ''prophet'' cfg trained
            else if model_flavor = ''pmdarima'' then new_backend env ''pmdarima'' cfg trained
            else if model_flavor = ''tensorflow''
              then (if config_get cfg ''nn_type'' ''rnn'' \<in> {''rnn'', ''lstm'', ''gru''}
                    then new_backend env ''tensorflow'' cfg trained
                    else Inl ValueError)
            else Inl ValueError) of
        Inl e \<Rightarrow> None
      | Inr model \<Rightarrow> Some model)"

text \<open>
  \<^verbatim>\<open>model_name.split("_")[0]\<close> is the name up to its first underscore. The dictionary
  of models keeps the order of the configurations.
\<close>

definition create_all_models ::
  "environment \<Rightarrow> (string \<times> model_config) list \<Rightarrow> (string \<times> krns_model option) list" where
  "create_all_models env cfgs =
     map (\<lambda>(model_name, cfg).
            (model_name,
             model_generation env (takeWhile (\<lambda>c. c \<noteq> CHR ''_'') model_name) cfg None))
         cfgs"

subsection \<open>\<^verbatim>\<open>Modeler.training\<close>\<close>

fun index_of :: "'a \<Rightarrow> 'a list \<Rightarrow> nat option" where
  "index_of x [] = None"
| "index_of x (y # ys) = (if x = y then Some 0 else map_option Suc (index_of x ys))"

text \<open>
  \<^verbatim>\<open>df_performances.loc[name] = [config, model, run_id] + values\<close>: the values go to the
  columns after the first three by position; a list of another length than the number
  of columns raises \<^verbatim>\<open>ValueError\<close>; a new name appends a row and a known one
  overwrites its row.
\<close>

definition loc_set ::
  "perf_table \<Rightarrow> string \<Rightarrow> model_config option \<Rightarrow> string option \<Rightarrow> real list
     \<Rightarrow> py_error + perf_table" where
  "loc_set df name cfg rid vals =
     (let k = length (metric_cols df) in
      if length vals \<noteq> k + (case col_error_avg df of None \<Rightarrow> 0 | Some _ \<Rightarrow> 1)
      then Inl ValueError
      else
        (case index_of name (row_names df) of
           None \<Rightarrow>
             Inr (df\<lparr>row_names := row_names df @ [name],
                     col_model_config := col_model_config df @ [cfg],
                     col_run_id := col_run_id df @ [rid],
                     metric_cols :=
                       map2 (\<lambda>mc v. (fst mc, snd mc @ [v])) (metric_cols df) (take k vals),
                     col_error_avg :=
                       map_option (\<lambda>avg. avg @ drop k vals) (col_error_avg df)\<rparr>)
         | Some i \<Rightarrow>
             Inr (df\<lparr>col_model_config := (col_model_config df)[i := cfg],
                     col_run_id := (col_run_id df)[i := rid],
                     metric_cols :=
                       map2 (\<lambda>mc v. (fst mc, (snd mc)[i := v])) (metric_cols df) (take k vals),
                     col_error_avg :=
                       map_option (\<lambda>avg. avg[i := hd (drop k vals)]) (col_error_avg df)\<rparr>)))"

text \<open>\<^verbatim>\<open>for key, val in train_evals.items(): client.log_metric(run_id, key, val)\<close>\<close>

fun log_metrics ::
  "environment \<Rightarrow> string \<Rightarrow> (string \<times> real) list \<Rightarrow> ml_flower \<Rightarrow> py_error option \<times> ml_flower" where
  "log_metrics env run_id [] mlf = (None, mlf)"
| "log_metrics env run_id ((key, val) # kvs) mlf =
     (case log_metric env run_id key val of
        Some e \<Rightarrow> (Some e, mlf)
      | None \<Rightarrow>
          log_metrics env run_id kvs
            (mlf\<lparr>logged_metrics := logged_metrics mlf @ [(run_id, key, val)]\<rparr>))"

text \<open>\<^verbatim>\<open>test_data[date_col].min()\<close>\<close>

definition min_date :: "obs list \<Rightarrow> int option" where
  "min_date df = (if df = [] then None else Some (Min (set (map obs_date df))))"

text \<open>
  The body of the inner \<^verbatim>\<open>try\<close>, one iteration of the loop over the models: the
  exception that leaves it, if any, and the state at that point. A model that
  \<^verbatim>\<open>model_generation\<close> could not build is \<^verbatim>\<open>None\<close>, on which the first method call raises
  \<^verbatim>\<open>AttributeError\<close>; the same holds for the \<^verbatim>\<open>.values()\<close> of the \<^verbatim>\<open>None\<close> that a failed
  evaluation returns, and subscripting \<^verbatim>\<open>None\<close> raises \<^verbatim>\<open>TypeError\<close>.
\<close>

definition train_model ::
  "environment \<Rightarrow> string \<Rightarrow> krns_model option \<Rightarrow> modeler \<times> ml_flower
     \<Rightarrow> py_error option \<times> modeler \<times> ml_flower" where
  "train_model env model_name model st =
     (case st of (self, mlf) \<Rightarrow>
      (case start_run env model_name of
         Inl e \<Rightarrow> (Some e, self, mlf)
       | Inr run_id \<Rightarrow>
      (let mlf1 = mlf_start_run run_id mlf in
       case model of
         None \<Rightarrow> (Some AttributeError, self, mlf1)
       | Some m \<Rightarrow>
      (case preprocess m of Some e \<Rightarrow> (Some e, self, mlf1) | None \<Rightarrow>
      (case log_params m of Some e \<Rightarrow> (Some e, self, mlf1) | None \<Rightarrow>
      (case fit m of Some e \<Rightarrow> (Some e, self, mlf1) | None \<Rightarrow>
      (case log_model m of Some e \<Rightarrow> (Some e, self, mlf1) | None \<Rightarrow>
      (case test_data self of
         None \<Rightarrow> (Some TypeError, self, mlf1)
       | Some test \<Rightarrow>
      (case predict m (n_test self) (min_date test) True of
         Inl e \<Rightarrow> (Some e, self, mlf1)
       | Inr None \<Rightarrow> (Some TypeError, self, mlf1)
       | Inr (Some pred) \<Rightarrow>
      (case evaluate_model (map obs_metric test) (map f_value pred)
              (fcst_competition_metrics self) of
         (lg, train_evals) \<Rightarrow>
      (let self1 = self\<lparr>logger := logger self @ lg\<rparr> in
       case map_of (models_config self1) model_name of
         None \<Rightarrow> (Some KeyError, self1, mlf1)
       | Some cfg \<Rightarrow>
      (case train_evals of
         None \<Rightarrow> (Some AttributeError, self1, mlf1)
       | Some evals \<Rightarrow>
      (case loc_set (df_performances self1) model_name (Some cfg) (Some run_id)
              (map snd evals) of
         Inl e \<Rightarrow> (Some e, self1, mlf1)
       | Inr df \<Rightarrow>
      (let self2 = self1\<lparr>df_performances := df\<rparr> in
       case log_metrics env run_id evals mlf1 of
         (Some e, mlf2) \<Rightarrow> (Some e, self2, mlf2)
       | (None, mlf2) \<Rightarrow> (None, self2, mlf_end_run mlf2)))))))))))))))"

text \<open>
  The iteration with its \<^verbatim>\<open>except Exception as e\<close>: the failure is logged with the
  model's name and the run is ended.
\<close>

definition train_one ::
  "environment \<Rightarrow> string \<times> krns_model option \<Rightarrow> modeler \<times> ml_flower \<Rightarrow> modeler \<times> ml_flower" where
  "train_one env nm st =
     (case train_model env (fst nm) (snd nm) st of
        (None, self', mlf') \<Rightarrow> (self', mlf')
      | (Some e, self', mlf') \<Rightarrow>
          (self'\<lparr>logger := logger self' @ [ModelTrainingFailed (fst nm) e]\<rparr>, mlf_end_run mlf'))"

text \<open>\<^verbatim>\<open>for model_name, model in models.items(): ...\<close>\<close>

fun training_loop ::
  "environment \<Rightarrow> (string \<times> krns_model option) list \<Rightarrow> modeler \<times> ml_flower \<Rightarrow> modeler \<times> ml_flower" where
  "training_loop env [] st = st"
| "training_loop env (nm # models) st = training_loop env models (train_one env nm st)"

definition training :: "environment \<Rightarrow> modeler \<times> ml_flower \<Rightarrow> modeler \<times> ml_flower" where
  "training env st =
     (case st of (self, mlf) \<Rightarrow>
      (case get_experiment env (''/mlflow/experiments/'' @ key_code self) of
         Some e \<Rightarrow> (self\<lparr>logger := logger self @ [TrainingFailed e]\<rparr>, mlf)
       | None \<Rightarrow>
           (let self1 = train_test_split self
            in training_loop env (create_all_models env (models_config self1)) (self1, mlf))))"

subsection \<open>\<^verbatim>\<open>Modeler.unit_test\<close> and \<^verbatim>\<open>Modeler.deploy\<close>\<close>

text \<open>
  The status is \<^verbatim>\<open>"OK"\<close> or \<^verbatim>\<open>"KO"\<close>; after any exception the method logs and returns
  \<^verbatim>\<open>None\<close>. \<^verbatim>\<open>len(pred)\<close> of a \<^verbatim>\<open>None\<close> forecast is such an exception.
\<close>

definition unit_test :: "environment \<Rightarrow> modeler \<Rightarrow> string \<Rightarrow> string \<Rightarrow> string option" where
  "unit_test env self model_version_name model_version_stage =
     (case load_model env (''models:/'' @ model_version_name @ ''/'' @ model_version_stage) of
        Inl e \<Rightarrow> None
      | Inr (model, flavor) \<Rightarrow>
          (case model_generation env flavor [] (Some model) of
             None \<Rightarrow> None
           | Some krns \<Rightarrow>
               (case predict krns (n_unit_test self) (Some (today env + 1)) True of
                  Inl e \<Rightarrow> None
                | Inr None \<Rightarrow> None
                | Inr (Some pred) \<Rightarrow>
                    Some (if int (length pred) = n_unit_test self then ''OK'' else ''KO''))))"

text \<open>
  \<^verbatim>\<open>deploy\<close> changes nothing in the \<^verbatim>\<open>Modeler\<close>; the model returns what the registry
  holds afterwards. Every exception ends the method (it is logged): the look-up of
  the winner's row (\<^verbatim>\<open>KeyError\<close>, also for the \<^verbatim>\<open>None\<close> of a competition that chose no
  winner), a failing registry call, \<^verbatim>\<open>"model_flavor" in None\<close> for a row without
  configuration.
\<close>

definition deploy :: "environment \<Rightarrow> modeler \<Rightarrow> ml_flower \<Rightarrow> ml_flower" where
  "deploy env self mlf =
     (case winning_model_name self of
        None \<Rightarrow> mlf
      | Some winner \<Rightarrow>
     (case index_of winner (row_names (df_performances self)) of
        None \<Rightarrow> mlf
      | Some i \<Rightarrow>
     (let winning_model_run_id = col_run_id (df_performances self) ! i;
          winning_model_config = col_model_config (df_performances self) ! i;
          model_uri = ''runs:/''
            @ (case winning_model_run_id of None \<Rightarrow> ''None'' | Some r \<Rightarrow> r) @ ''/model''
      in
      case register_model env model_uri (key_code self) of
        Some e \<Rightarrow> mlf
      | None \<Rightarrow>
     (case mlf_register_model (key_code self) mlf of (model_details, mlf1) \<Rightarrow>
     (case winning_model_config of
        None \<Rightarrow> mlf1
      | Some cfg \<Rightarrow>
     (case (if ''model_flavor'' \<in> fst ` set cfg
            then set_model_tag env (config_get cfg ''model_flavor'' [])
            else None) of
        Some e \<Rightarrow> mlf1
      | None \<Rightarrow>
     (case promote_model env ''staging'' of
        Some e \<Rightarrow> mlf1
      | None \<Rightarrow>
     (case mlf_promote_model model_details Staging mlf1 of (model_version, mlf2) \<Rightarrow>
      (let unit_test_status =
             unit_test env self (mv_name model_version) (mv_current_stage model_version)
       in
       if unit_test_status = Some ''OK''
       then (case promote_model env ''production'' of
               Some e \<Rightarrow> mlf2
             | None \<Rightarrow> snd (mlf_promote_model model_version Production mlf2))
       else mlf2)))))))))"

subsection \<open>\<^verbatim>\<open>Modeler.prediction\<close>\<close>

text \<open>
  The body of the \<^verbatim>\<open>try\<close>: load the production model, wrap it, predict, keep the two
  columns.
\<close>

definition prediction_try :: "environment \<Rightarrow> modeler \<Rightarrow> py_error + fcst_row list" where
  "prediction_try env self =
     (case load_model env (''models:/'' @ key_code self @ ''/Production'') of
        Inl e \<Rightarrow> Inl e
      | Inr (model, flavor) \<Rightarrow>
          (case model_generation env flavor [] (Some model) of
             None \<Rightarrow> Inl AttributeError
           | Some krns \<Rightarrow>
               (case predict krns (fcst_horizon self) (Some (fcst_first_date self))
                       (future_only self) of
                  Inl e \<Rightarrow> Inl e
                | Inr None \<Rightarrow> Inl TypeError
                | Inr (Some pred) \<Rightarrow> Inr pred)))"

text \<open>
  The body of the \<^verbatim>\<open>except\<close>: the flat-line forecast. It is not itself inside a
  \<^verbatim>\<open>try\<close>. With no row before \<^verbatim>\<open>fcst_first_date\<close> the maximum of the empty date
  column is not a date, and subtracting it from \<^verbatim>\<open>fcst_first_date\<close> raises.
\<close>

definition prediction_except :: "modeler \<Rightarrow> py_error + fcst_row list" where
  "prediction_except self =
     (let historic_data = filter (\<lambda>r. obs_date r < fcst_first_date self) (data self) in
      if historic_data = [] then Inl TypeError
      else
        (let last_observed_day = Max (set (map obs_date historic_data));
             difference = fcst_first_date self - last_observed_day;
             horizon = difference + fcst_horizon self - 1;
             last_value = obs_metric (hd (sort_values_desc historic_data));
             pred = map2 (\<lambda>d v. \<lparr>f_date = d, f_value = v\<rparr>)
                      (map (\<lambda>x. last_observed_day + x) [1..horizon])
                      (replicate (nat horizon) last_value)
         in Inr (if future_only self
                 then filter (\<lambda>r. f_date r \<ge> fcst_first_date self) pred
                 else pred)))"

record prediction_row =
  p_date :: int
  p_fcst :: real
  p_reference :: int
  p_creation :: int
  p_key :: string

text \<open>
  The statements after the \<^verbatim>\<open>try\<close>: the reference date, the creation date and the key
  are added, and \<^verbatim>\<open>x if x >= 0 else 0\<close> is applied to the forecast column.
\<close>

definition finish_prediction :: "modeler \<Rightarrow> fcst_row list \<Rightarrow> prediction_row list" where
  "finish_prediction self pred =
     map (\<lambda>r. \<lparr>p_date = f_date r,
               p_fcst = (if f_value r \<ge> 0 then f_value r else 0),
               p_reference = fcst_first_date self,
               p_creation = current_date self,
               p_key = key_code self\<rparr>) pred"

definition prediction :: "environment \<Rightarrow> modeler \<Rightarrow> py_error + prediction_row list" where
  "prediction env self =
     (case (case prediction_try env self of
              Inr pred \<Rightarrow> Inr pred
            | Inl e \<Rightarrow> prediction_except self) of
        Inl e \<Rightarrow> Inl e
      | Inr pred \<Rightarrow> Inr (finish_prediction self pred))"

subsection \<open>Shapes that numpy can combine\<close>

text \<open>The pairs of one-dimensional shapes on which \<open>np_binop\<close> does not raise.\<close>

definition broadcastable :: "'a list \<Rightarrow> 'b list \<Rightarrow> bool" where
  "broadcastable xs ys = (length xs = length ys \<or> length xs = 1 \<or> length ys = 1)"


subsection \<open>A concrete series, configuration and environment\<close>

text \<open>
  Six daily observations, three configured models, and collaborators whose calls
  succeed, except that the registry holds no loadable model and the \<^verbatim>\<open>pmdarima\<close> backend
  fails to fit; the \<^verbatim>\<open>tensorflow\<close> backend forecasts one row too few. The theorems
  below are instantiated on them.
\<close>

definition demo_series :: "obs list" where
  "demo_series =
     [\<lparr>obs_key = ''k'', obs_date = 1, obs_metric = 10\<rparr>,
      \<lparr>obs_key = ''k'', obs_date = 2, obs_metric = 20\<rparr>,
      \<lparr>obs_key = ''k'', obs_date = 3, obs_metric = 30\<rparr>,
      \<lparr>obs_key = ''k'', obs_date = 4, obs_metric = 40\<rparr>,
      \<lparr>obs_key = ''k'', obs_date = 5, obs_metric = 50\<rparr>,
      \<lparr>obs_key = ''k'', obs_date = 6, obs_metric = 60\<rparr>]"

definition demo_modeler :: modeler where
  "demo_modeler =
     \<lparr>data = demo_series,
      models_config = [(''prophet_1'', []), (''pmdarima_1'', []), (''tensorflow_1'', [])],
      current_date = 6, fcst_first_date = 9, n_test = 3, n_unit_test = 2, fcst_horizon = 5,
      fcst_competition_metrics = [''rmse'', ''mape''],
      fcst_competition_metric_weights = [1, 1],
      future_only = True, key_code = ''k'', train_data = None, test_data = None,
      df_performances = empty_performances [''rmse'', ''mape''],
      winning_model_name = None, logger = []\<rparr>"

text \<open>A backend whose calls all return, with a forecast of \<open>k\<close> rows of value \<open>v\<close>.\<close>

definition demo_backend :: "string \<Rightarrow> nat \<Rightarrow> real \<Rightarrow> krns_model" where
  "demo_backend flv k v =
     \<lparr>krns_flavor = flv, krns_trained = None, preprocess = None, log_params = None,
      fit = None, log_model = None,
      predict = (\<lambda>n d fo. Inr (Some (map (\<lambda>i. \<lparr>f_date = int i, f_value = v\<rparr>) [0..<k])))\<rparr>"

definition demo_env :: environment where
  "demo_env =
     \<lparr>today = 6,
      get_experiment = (\<lambda>path. None),
      start_run = (\<lambda>name. Inr (''run_'' @ name)),
      log_metric = (\<lambda>run_id key val. None),
      load_model = (\<lambda>uri. Inl ExternalFailure),
      new_backend = (\<lambda>flv cfg trained.
         if flv = ''prophet'' then Inr (demo_backend flv 3 40)
         else if flv = ''pmdarima'' then Inr ((demo_backend flv 3 50)\<lparr>fit := Some ExternalFailure\<rparr>)
         else Inr (demo_backend flv 2 50)),
      register_model = (\<lambda>uri name. None),
      set_model_tag = (\<lambda>v. None),
      promote_model = (\<lambda>stage. None)\<rparr>"

text \<open>
  The series with two later observations, after a gap of two days, and an environment
  whose registry returns a loadable model that forecasts a negative value, a zero and a
  positive value.
\<close>

definition demo_later_series :: "obs list" where
  "demo_later_series =
     demo_series @
     [\<lparr>obs_key = ''k'', obs_date = 9, obs_metric = 90\<rparr>,
      \<lparr>obs_key = ''k'', obs_date = 10, obs_metric = 100\<rparr>]"

definition demo_mixed_env :: environment where
  "demo_mixed_env =
     demo_env\<lparr>load_model := (\<lambda>uri. Inr (7, ''prophet'')),
              new_backend := (\<lambda>flv cfg trained.
                Inr ((demo_backend flv 0 0)\<lparr>predict := (\<lambda>n d fo.
                  Inr (Some [\<lparr>f_date = 9, f_value = - 3\<rparr>, \<lparr>f_date = 10, f_value = 0\<rparr>,
                             \<lparr>f_date = 11, f_value = 7\<rparr>]))\<rparr>))\<rparr>"

definition demo_mlf :: ml_flower where
  "demo_mlf =
     \<lparr>active_run = None, ended_runs = [], logged_metrics = [], next_version = 2,
      stage_of = (\<lambda>v. if v = 0 then Archived else if v = 1 then Production else Unregistered)\<rparr>"

text \<open>
  A performance table of three trained models and the production baseline, in which
  three rows tie.
\<close>

definition demo_performances :: perf_table where
  "demo_performances =
     \<lparr>row_names = [''prophet_1'', ''pmdarima_1'', ''tensorflow_1'', ''prod_model''],
      col_model_config = [Some [(''model_flavor'', ''prophet'')], Some [], Some [], None],
      col_run_id = [Some ''run_prophet_1'', Some ''run_pmdarima_1'', Some ''run_tensorflow_1'',
                    None],
      metric_cols = [(''rmse'', [4, 0, 0, 0]), (''mape'', [5, 1, 1, 1])],
      col_error_avg = None\<rparr>"


text \<open>
  The state after a competition that \<^verbatim>\<open>prophet_1\<close> has won, and an environment whose
  registry returns a loadable \<^verbatim>\<open>prophet\<close> model.
\<close>

definition demo_winner :: modeler where
  "demo_winner =
     demo_modeler\<lparr>df_performances := demo_performances,
                   winning_model_name := Some ''prophet_1''\<rparr>"

definition demo_registry_env :: environment where
  "demo_registry_env = demo_env\<lparr>load_model := (\<lambda>uri. Inr (7, ''prophet''))\<rparr>"


section \<open>Properties\<close>

subsection \<open>Evaluation\<close>

lemma map2_sub_sq:
  "map (\<lambda>x. x\<^sup>2) (map2 (-) (xs::real list) ys) = map2 (\<lambda>a p. (a - p)\<^sup>2) xs ys"
  by (simp add: case_prod_beta)

lemma np_binop_equal_length:
  "length xs = length ys \<Longrightarrow> np_binop f xs ys = Inr (map2 f xs ys)"
  by (simp add: np_binop_def)

lemma rmse_equal_length:
  assumes "length actual = length pred"
  shows "rmse actual pred = Inr (sqrt (np_mean (map2 (\<lambda>a p. (a - p)\<^sup>2) actual pred)))"
  by (simp only: rmse_def np_binop_equal_length[OF assms] sum.case map2_sub_sq)

lemma map2_div_abs:
  "length xs = length ys \<Longrightarrow>
   map abs (map2 (/) (map2 (-) (xs::real list) ys) xs) = map2 (\<lambda>a p. \<bar>(a - p) / a\<bar>) xs ys"
  by (induction xs ys rule: list_induct2) simp_all

lemma mape_equal_length:
  assumes "length actual = length pred"
  shows "mape actual pred = Inr (np_mean (map2 (\<lambda>a p. \<bar>(a - p) / a\<bar>) actual pred) * 100)"
proof -
  have "length (map2 (-) actual pred) = length actual"
    using assms by simp
  then have "np_binop (/) (map2 (-) actual pred) actual
      = Inr (map2 (/) (map2 (-) actual pred) actual)"
    by (rule np_binop_equal_length)
  then show ?thesis
    by (simp only: mape_def np_binop_equal_length[OF assms] sum.case map2_div_abs[OF assms])
qed

lemma np_binop_Inl: "\<not> broadcastable xs ys \<Longrightarrow> np_binop f xs ys = Inl ValueError"
  by (auto simp: np_binop_def broadcastable_def)

lemma rmse_Inr: "broadcastable actual pred \<Longrightarrow> \<exists>r. rmse actual pred = Inr r"
  by (auto simp: rmse_def np_binop_def broadcastable_def)

lemma rmse_Inl: "\<not> broadcastable actual pred \<Longrightarrow> rmse actual pred = Inl ValueError"
  by (simp add: rmse_def np_binop_Inl)

lemma mape_Inl: "\<not> broadcastable actual pred \<Longrightarrow> mape actual pred = Inl ValueError"
  by (simp add: mape_def np_binop_Inl)

lemma mape_Inr: "broadcastable actual pred \<Longrightarrow> \<exists>r. mape actual pred = Inr r"
  by (auto simp: mape_def np_binop_def broadcastable_def)

lemma evaluate_loop_ok:
  assumes "rmse actual pred = Inr r" and "mape actual pred = Inr q"
  shows "\<exists>lg' out'. evaluate_loop actual pred ms (lg, out) = (lg', Inr out') \<and>
           (\<forall>k. map_of out' k =
              (if k \<in> normalise_metric ` set ms \<and> k \<in> set supported_metrics
               then Some (if k = ''rmse'' then r else q) else map_of out k))"
proof (induction ms arbitrary: lg out)
  case Nil
  show ?case by simp
next
  case (Cons m ms)
  show ?case
  proof (cases "normalise_metric m \<in> set supported_metrics")
    case False
    then show ?thesis
      using Cons.IH[of "lg @ [MetricNotSupported (normalise_metric m)]" out]
      by (auto simp: Let_def)
  next
    case True
    define v where "v = (if normalise_metric m = ''rmse'' then r else q)"
    have step: "evaluate_loop actual pred (m # ms) (lg, out) =
        evaluate_loop actual pred ms (lg, AList.update (normalise_metric m) v out)"
      using True assms by (simp add: Let_def v_def)
    obtain lg' out' where res: "evaluate_loop actual pred ms (lg, AList.update (normalise_metric m) v out) = (lg', Inr out')"
      and mp: "\<forall>k. map_of out' k =
              (if k \<in> normalise_metric ` set ms \<and> k \<in> set supported_metrics
               then Some (if k = ''rmse'' then r else q)
               else map_of (AList.update (normalise_metric m) v out) k)"
      using Cons.IH[of lg "AList.update (normalise_metric m) v out"] by blast
    show ?thesis
      unfolding step res using mp True
      by (auto simp: update_conv' v_def)
  qed
qed

lemma evaluate_loop_unsupported:
  assumes "\<forall>m\<in>set ms. normalise_metric m \<notin> set supported_metrics"
  shows "\<exists>lg'. evaluate_loop actual pred ms (lg, out) = (lg', Inr out)"
  using assms by (induction ms arbitrary: lg) (auto simp: Let_def)

lemma evaluate_loop_fail:
  assumes "rmse actual pred = Inl e" and "mape actual pred = Inl e"
    and "\<exists>m\<in>set ms. normalise_metric m \<in> set supported_metrics"
  shows "\<exists>lg'. evaluate_loop actual pred ms (lg, out) = (lg', Inl e)"
  using assms(3)
proof (induction ms arbitrary: lg)
  case Nil
  then show ?case by simp
next
  case (Cons m ms)
  show ?case
  proof (cases "normalise_metric m \<in> set supported_metrics")
    case True
    then show ?thesis using assms(1,2) by (simp add: Let_def)
  next
    case False
    with Cons.prems have "\<exists>m\<in>set ms. normalise_metric m \<in> set supported_metrics" by auto
    from Cons.IH[OF this, of "lg @ [MetricNotSupported (normalise_metric m)]"] False
    show ?thesis by (auto simp: Let_def)
  qed
qed



text \<open>
  C8. For actual and predicted arrays of equal length, \<^verbatim>\<open>evaluate_model\<close> returns a
  mapping in which \<^verbatim>\<open>rmse\<close>, when requested, is \<open>sqrt (mean ((actual - pred)\<^sup>2))\<close> and
  \<^verbatim>\<open>mape\<close>, when requested, is \<open>mean \<bar>(actual - pred) / actual\<bar> * 100\<close>; a requested name
  outside the supported set is absent from the mapping, and nothing is raised. (The
  arrays are not empty, and for \<^verbatim>\<open>mape\<close> no actual value is zero: there the floating-point
  result is not a number.) The instance below gives \<open>sqrt (1 / 3)\<close> for
  \<^verbatim>\<open>rmse([1,2,3],[1,2,4])\<close> and \<open>15\<close> for \<^verbatim>\<open>mape([10,20],[12,18])\<close>.
\<close>

theorem evaluate_model_metrics:
  assumes "length actual = length pred" and "actual \<noteq> []"
  shows "\<exists>lg out. evaluate_model actual pred metrics = (lg, Some out) \<and>
           map_of out ''rmse'' =
             (if ''rmse'' \<in> normalise_metric ` set metrics
              then Some (sqrt (np_mean (map2 (\<lambda>a p. (a - p)\<^sup>2) actual pred))) else None) \<and>
           (0 \<notin> set actual \<longrightarrow>
            map_of out ''mape'' =
              (if ''mape'' \<in> normalise_metric ` set metrics
               then Some (np_mean (map2 (\<lambda>a p. \<bar>(a - p) / a\<bar>) actual pred) * 100) else None)) \<and>
           (\<forall>k. k \<notin> set supported_metrics \<longrightarrow> map_of out k = None)"
proof -
  let ?r = "sqrt (np_mean (map2 (\<lambda>a p. (a - p)\<^sup>2) actual pred))"
  let ?q = "np_mean (map2 (\<lambda>a p. \<bar>(a - p) / a\<bar>) actual pred) * 100"
  obtain lg out where res: "evaluate_loop actual pred metrics ([], []) = (lg, Inr out)"
    and mp: "\<forall>k. map_of out k =
              (if k \<in> normalise_metric ` set metrics \<and> k \<in> set supported_metrics
               then Some (if k = ''rmse'' then ?r else ?q) else map_of [] k)"
    using evaluate_loop_ok[OF rmse_equal_length[OF assms(1)] mape_equal_length[OF assms(1)],
        of metrics "[]" "[]"] by blast
  have "evaluate_model actual pred metrics = (lg, Some out)"
    by (simp add: evaluate_model_def res)
  moreover have "map_of out ''rmse'' = (if ''rmse'' \<in> normalise_metric ` set metrics then Some ?r else None)"
    using mp by (simp add: supported_metrics_def)
  moreover have "map_of out ''mape'' = (if ''mape'' \<in> normalise_metric ` set metrics then Some ?q else None)"
    using mp by (simp add: supported_metrics_def)
  moreover have "\<forall>k. k \<notin> set supported_metrics \<longrightarrow> map_of out k = None"
    using mp by simp
  ultimately show ?thesis by blast
qed

theorem evaluate_model_metrics_witness:
  "length [1, 2, 3 :: real] = length [1, 2, 4 :: real] \<and> [1, 2, 3 :: real] \<noteq> [] \<and>
   evaluate_model [1, 2, 3] [1, 2, 4] [''rmse''] = ([], Some [(''rmse'', sqrt (1 / 3))]) \<and>
   evaluate_model [10, 20] [12, 18] [''M A P E'', ''mae''] =
     ([MetricNotSupported ''mae''], Some [(''mape'', 15)])"
proof -
  have n1: "normalise_metric ''rmse'' = ''rmse''"
    by (simp add: normalise_metric_def lower_char_def)
  have n2: "normalise_metric ''M A P E'' = ''mape''"
    by (simp add: normalise_metric_def lower_char_def)
  have n3: "normalise_metric ''mae'' = ''mae''"
    by (simp add: normalise_metric_def lower_char_def)
  have c1: "evaluate_model [1, 2, 3] [1, 2, 4] [''rmse''] = ([], Some [(''rmse'', sqrt (1 / 3))])"
    by (simp add: evaluate_model_def n1 supported_metrics_def rmse_def np_binop_def np_mean_def)
  have c2: "evaluate_model [10, 20] [12, 18] [''M A P E'', ''mae''] =
     ([MetricNotSupported ''mae''], Some [(''mape'', 15)])"
    by (simp add: evaluate_model_def n2 n3 supported_metrics_def mape_def np_binop_def np_mean_def)
  show ?thesis
    using evaluate_model_metrics[of "[1, 2, 3]" "[1, 2, 4]" "[''rmse'']"] c1 c2
    by simp
qed

lemma evaluate_model_None_iff:
  "snd (evaluate_model actual pred metrics) = None \<longleftrightarrow>
     \<not> broadcastable actual pred \<and>
     (\<exists>m\<in>set metrics. normalise_metric m \<in> set supported_metrics)"
proof (cases "broadcastable actual pred")
  case True
  obtain r q where "rmse actual pred = Inr r" "mape actual pred = Inr q"
    using rmse_Inr[OF True] mape_Inr[OF True] by blast
  from evaluate_loop_ok[OF this, of metrics "[]" "[]"] True
  show ?thesis by (auto simp: evaluate_model_def)
next
  case False
  show ?thesis
  proof (cases "\<exists>m\<in>set metrics. normalise_metric m \<in> set supported_metrics")
    case True
    from evaluate_loop_fail[OF rmse_Inl[OF False] mape_Inl[OF False] True, of "[]" "[]"] False True
    show ?thesis by (auto simp: evaluate_model_def)
  next
    case no: False
    then have "\<forall>m\<in>set metrics. normalise_metric m \<notin> set supported_metrics" by blast
    from evaluate_loop_unsupported[OF this, of actual pred "[]" "[]"] no
    show ?thesis by (auto simp: evaluate_model_def)
  qed
qed

lemma evaluate_model_None_log:
  assumes "snd (evaluate_model actual pred metrics) = None"
  shows "\<exists>lg. fst (evaluate_model actual pred metrics) = lg @ [EvaluationFailed metrics ValueError]"
proof -
  from assms have nb: "\<not> broadcastable actual pred"
    and ex: "\<exists>m\<in>set metrics. normalise_metric m \<in> set supported_metrics"
    by (simp_all add: evaluate_model_None_iff)
  from evaluate_loop_fail[OF rmse_Inl[OF nb] mape_Inl[OF nb] ex, of "[]" "[]"]
  show ?thesis by (auto simp: evaluate_model_def)
qed

lemma train_model_evaluation_None:
  assumes "start_run env name = Inr rid" "preprocess m = None" "log_params m = None"
    "fit m = None" "log_model m = None" "test_data self = Some test"
    "predict m (n_test self) (min_date test) True = Inr (Some pred)"
    "map_of (models_config self) name = Some cfg"
    "snd (evaluate_model (map obs_metric test) (map f_value pred)
            (fcst_competition_metrics self)) = None"
  shows "fst (train_model env name (Some m) (self, mlf)) = Some AttributeError"
proof -
  obtain lg where "evaluate_model (map obs_metric test) (map f_value pred)
            (fcst_competition_metrics self) = (lg, None)"
    using assms(9) by (cases "evaluate_model (map obs_metric test) (map f_value pred)
            (fcst_competition_metrics self)") auto
  with assms(1-8) show ?thesis
    by (simp add: train_model_def Let_def)
qed

text \<open>
  C10. \<^verbatim>\<open>evaluate_model\<close> never raises: it returns \<^verbatim>\<open>None\<close> instead of the documented
  dictionary exactly when an exception occurs inside it, which is when a supported metric
  is requested for arrays whose shapes cannot be combined; the exception is then logged.
  A caller that treats the result as a dictionary fails in turn: the training pipeline
  raises \<^verbatim>\<open>AttributeError\<close> on \<^verbatim>\<open>train_evals.values()\<close>.
\<close>

theorem evaluate_model_returns_None:
  "(snd (evaluate_model actual pred metrics) = None \<longleftrightarrow>
      \<not> broadcastable actual pred \<and>
      (\<exists>m\<in>set metrics. normalise_metric m \<in> set supported_metrics)) \<and>
   (snd (evaluate_model actual pred metrics) = None \<longrightarrow>
      (\<exists>lg. fst (evaluate_model actual pred metrics) =
              lg @ [EvaluationFailed metrics ValueError])) \<and>
   (start_run env name = Inr rid \<and> preprocess m = None \<and> log_params m = None \<and>
    fit m = None \<and> log_model m = None \<and> test_data self = Some test \<and>
    predict m (n_test self) (min_date test) True = Inr (Some fc) \<and>
    map_of (models_config self) name = Some cfg \<and>
    snd (evaluate_model (map obs_metric test) (map f_value fc)
           (fcst_competition_metrics self)) = None \<longrightarrow>
    fst (train_model env name (Some m) (self, mlf)) = Some AttributeError)"
  using evaluate_model_None_iff[of actual pred metrics]
    evaluate_model_None_log[of actual pred metrics]
    train_model_evaluation_None[of env name rid m self test fc cfg mlf]
  by blast

theorem evaluate_model_returns_None_witness:
  "\<not> broadcastable [1, 2, 3 :: real] [1, 2 :: real] \<and>
   evaluate_model [1, 2, 3] [1, 2] [''rmse''] = ([EvaluationFailed [''rmse''] ValueError], None) \<and>
   fst (train_model demo_env ''tensorflow_1'' (Some (demo_backend ''tensorflow'' 2 50))
          (demo_modeler\<lparr>test_data := Some (take 3 demo_series)\<rparr>, demo_mlf))
     = Some AttributeError"
proof -
  have n1: "normalise_metric ''rmse'' = ''rmse''"
    by (simp add: normalise_metric_def lower_char_def)
  have nb: "\<not> broadcastable [1, 2, 3 :: real] [1, 2 :: real]"
    by (simp add: broadcastable_def)
  have c1: "evaluate_model [1, 2, 3] [1, 2] [''rmse'']
      = ([EvaluationFailed [''rmse''] ValueError], None)"
    by (simp add: evaluate_model_def n1 supported_metrics_def rmse_def np_binop_def)
  have c2: "snd (evaluate_model (map obs_metric (take 3 demo_series))
        (map f_value [\<lparr>f_date = 0, f_value = 50\<rparr>, \<lparr>f_date = 1, f_value = 50\<rparr>])
        [''rmse'', ''mape'']) = None"
    by (simp add: evaluate_model_def n1 supported_metrics_def rmse_def np_binop_def
        demo_series_def)
  have p: "predict (demo_backend ''tensorflow'' 2 50) 3 (min_date (take 3 demo_series)) True
      = Inr (Some [\<lparr>f_date = 0, f_value = 50\<rparr>, \<lparr>f_date = 1, f_value = 50\<rparr>])"
    by (simp add: demo_backend_def upt_rec)
  show ?thesis
    using evaluate_model_returns_None[of "[1, 2, 3]" "[1, 2]" "[''rmse'']" demo_env
        "''tensorflow_1''" "''run_tensorflow_1''" "demo_backend ''tensorflow'' 2 50"
        "demo_modeler\<lparr>test_data := Some (take 3 demo_series)\<rparr>" "take 3 demo_series"
        "[\<lparr>f_date = 0, f_value = 50\<rparr>, \<lparr>f_date = 1, f_value = 50\<rparr>]" "[]" demo_mlf]
      nb c1 c2 p
    by (simp add: demo_env_def demo_modeler_def demo_backend_def)
qed

subsection \<open>Train/test split\<close>

lemma slice_bound_nat: "0 \<le> i \<Longrightarrow> i \<le> int n \<Longrightarrow> slice_bound i n = nat i"
  by (simp add: slice_bound_def min_def) arith

lemma mset_sort_values_desc: "mset (sort_values_desc df) = mset df"
  by (simp add: sort_values_desc_def)

lemma length_sort_values_desc: "length (sort_values_desc df) = length df"
  by (simp add: sort_values_desc_def)

lemma sorted_sort_values_desc: "sorted (map (\<lambda>r. - obs_date r) (sort_values_desc df))"
  by (simp add: sort_values_desc_def)

lemma iloc_split:
  assumes "0 \<le> n" and "2 * n \<le> int (length df)"
  shows "iloc_from n (sort_values_desc df) = drop (nat n) (sort_values_desc df)"
    and "iloc_upto n (sort_values_desc df) = take (nat n) (sort_values_desc df)"
  using assms by (simp_all add: iloc_from_def iloc_upto_def slice_bound_nat length_sort_values_desc)

lemma mset_drop_take: "mset (drop k xs) + mset (take k xs) = mset xs"
  by (metis append_take_drop_id mset_append union_commute)

lemma train_test_split_enough:
  assumes "0 \<le> n_test self" and "2 * n_test self \<le> int (length (data self))"
  shows "train_test_split self =
    self\<lparr>train_data := Some (drop (nat (n_test self)) (sort_values_desc (data self))),
         test_data := Some (take (nat (n_test self)) (sort_values_desc (data self)))\<rparr>"
proof -
  have "\<not> int (length (data self)) - n_test self < n_test self"
    using assms by linarith
  then show ?thesis
    by (simp add: train_test_split_def train_test_split_try_def iloc_split[OF assms])
qed

lemma mlf_train_test_split_enough:
  assumes "0 \<le> n" and "2 * n \<le> int (length df)"
  shows "mlf_train_test_split df n =
    ([], Inr (drop (nat n) (sort_values_desc df), take (nat n) (sort_values_desc df)))"
proof -
  have "\<not> int (length df) - n < n"
    using assms by linarith
  then show ?thesis
    by (simp add: mlf_train_test_split_def iloc_split[OF assms])
qed

lemma train_test_split_short:
  assumes "int (length (data self)) - n_test self < n_test self"
  shows "snd (train_test_split_try self) = Inl InsufficientData"
    and "train_test_split self = self\<lparr>logger := logger self @
           [SplitNotEnoughRecords (length (data self)) (n_test self), SplitFailed InsufficientData]\<rparr>"
  using assms by (simp_all add: train_test_split_def train_test_split_try_def)

text \<open>
  C5, as the code has it. For a test size \<open>n_test \<ge> 0\<close> and a dataset of at least
  \<open>2 * n_test\<close> rows, both splits sort the rows by date in descending order and make
  the first \<open>n_test\<close> rows the test set and the remaining rows the training set: the two
  sets partition the dataset (as multisets of rows) and have \<open>rows - n_test\<close> and
  \<open>n_test\<close> rows. For \<open>rows - n_test < n_test\<close> the split of \<^verbatim>\<open>mlf_project\<close> raises; the
  split of \<^verbatim>\<open>kronos\<close> raises the same exception inside its \<^verbatim>\<open>try\<close>, catches it, logs the
  failure and returns normally, leaving the training and test sets unset.
\<close>

theorem train_test_split_partition:
  "(0 \<le> n_test self \<and> 2 * n_test self \<le> int (length (data self)) \<longrightarrow>
      (let sorted_df = sort_values_desc (data self);
           test = take (nat (n_test self)) sorted_df;
           train = drop (nat (n_test self)) sorted_df
       in mset sorted_df = mset (data self) \<and>
          sorted (map (\<lambda>r. - obs_date r) sorted_df) \<and>
          train_test_split self = self\<lparr>train_data := Some train, test_data := Some test\<rparr> \<and>
          mlf_train_test_split (data self) (n_test self) = ([], Inr (train, test)) \<and>
          mset train + mset test = mset (data self) \<and>
          int (length train) = int (length (data self)) - n_test self \<and>
          int (length test) = n_test self)) \<and>
   (int (length (data self)) - n_test self < n_test self \<longrightarrow>
      snd (mlf_train_test_split (data self) (n_test self)) = Inl InsufficientData \<and>
      snd (train_test_split_try self) = Inl InsufficientData \<and>
      train_test_split self = self\<lparr>logger := logger self @
        [SplitNotEnoughRecords (length (data self)) (n_test self), SplitFailed InsufficientData]\<rparr>)"
proof (intro conjI impI)
  assume a: "0 \<le> n_test self \<and> 2 * n_test self \<le> int (length (data self))"
  then have a1: "0 \<le> n_test self" and a2: "2 * n_test self \<le> int (length (data self))"
    by simp_all
  have len: "nat (n_test self) \<le> length (sort_values_desc (data self))"
    using a1 a2 by (simp add: length_sort_values_desc)
  show "let sorted_df = sort_values_desc (data self);
           test = take (nat (n_test self)) sorted_df;
           train = drop (nat (n_test self)) sorted_df
       in mset sorted_df = mset (data self) \<and>
          sorted (map (\<lambda>r. - obs_date r) sorted_df) \<and>
          train_test_split self = self\<lparr>train_data := Some train, test_data := Some test\<rparr> \<and>
          mlf_train_test_split (data self) (n_test self) = ([], Inr (train, test)) \<and>
          mset train + mset test = mset (data self) \<and>
          int (length train) = int (length (data self)) - n_test self \<and>
          int (length test) = n_test self"
  proof -
    have l1: "int (length (drop (nat (n_test self)) (sort_values_desc (data self))))
        = int (length (data self)) - n_test self"
      using a1 a2 by (simp add: length_sort_values_desc of_nat_diff)
    have l2: "int (length (take (nat (n_test self)) (sort_values_desc (data self))))
        = n_test self"
      using a1 a2 by (simp add: length_sort_values_desc min_def) arith
    show ?thesis
      unfolding Let_def
      using train_test_split_enough[OF a1 a2] mlf_train_test_split_enough[OF a1 a2]
        mset_drop_take[of "nat (n_test self)" "sort_values_desc (data self)"]
        sorted_sort_values_desc[of "data self"] mset_sort_values_desc[of "data self"] l1 l2
      by (simp only: simp_thms)
  qed
next
  assume b: "int (length (data self)) - n_test self < n_test self"
  show "snd (mlf_train_test_split (data self) (n_test self)) = Inl InsufficientData"
    using b by (simp add: mlf_train_test_split_def)
  show "snd (train_test_split_try self) = Inl InsufficientData"
    using train_test_split_short(1)[OF b] .
  show "train_test_split self = self\<lparr>logger := logger self @
        [SplitNotEnoughRecords (length (data self)) (n_test self), SplitFailed InsufficientData]\<rparr>"
    using train_test_split_short(2)[OF b] .
qed

lemma demo_sorted: "sort_values_desc demo_series = rev demo_series"
  by (simp add: sort_values_desc_def demo_series_def)

theorem train_test_split_partition_witness:
  "0 \<le> n_test demo_modeler \<and> 2 * n_test demo_modeler \<le> int (length (data demo_modeler)) \<and>
   train_test_split demo_modeler =
     demo_modeler\<lparr>train_data := Some (drop 3 (rev demo_series)),
                   test_data := Some (take 3 (rev demo_series))\<rparr> \<and>
   int (length (data (demo_modeler\<lparr>n_test := 4\<rparr>))) - n_test (demo_modeler\<lparr>n_test := 4\<rparr>)
     < n_test (demo_modeler\<lparr>n_test := 4\<rparr>) \<and>
   snd (mlf_train_test_split demo_series 4) = Inl InsufficientData"
proof -
  have h: "n_test demo_modeler = 3" "data demo_modeler = demo_series" "length demo_series = 6"
    by (simp_all add: demo_modeler_def demo_series_def)
  show ?thesis
    using train_test_split_partition[of demo_modeler]
      train_test_split_partition[of "demo_modeler\<lparr>n_test := 4\<rparr>"]
    by (simp add: h Let_def demo_sorted)
qed

text \<open>
  With six rows and a test size of four, \<^verbatim>\<open>Modeler.train_test_split\<close> of \<^verbatim>\<open>kronos\<close>
  does not fail towards its caller: it returns, and what it returns is the state it
  was given, with two more log entries and no split.
\<close>

theorem train_test_split_swallows_error:
  "train_test_split (demo_modeler\<lparr>n_test := 4\<rparr>) =
     demo_modeler\<lparr>n_test := 4,
                   logger := [SplitNotEnoughRecords 6 4, SplitFailed InsufficientData]\<rparr> \<and>
   train_data (train_test_split (demo_modeler\<lparr>n_test := 4\<rparr>)) = None \<and>
   test_data (train_test_split (demo_modeler\<lparr>n_test := 4\<rparr>)) = None"
  by (simp add: train_test_split_def train_test_split_try_def demo_modeler_def demo_series_def)

subsection \<open>Prediction\<close>

lemma hd_sort_values_desc:
  assumes "hist \<noteq> []"
  shows "hd (sort_values_desc hist) \<in> set hist"
    and "\<forall>r\<in>set hist. obs_date r \<le> obs_date (hd (sort_values_desc hist))"
proof -
  have ne: "sort_values_desc hist \<noteq> []"
    using assms length_sort_values_desc[of hist] by (metis length_0_conv)
  then obtain x xs where s: "sort_values_desc hist = x # xs"
    by (cases "sort_values_desc hist") auto
  have st: "set (sort_values_desc hist) = set hist"
    using mset_sort_values_desc[of hist] by (metis set_mset_mset)
  show "hd (sort_values_desc hist) \<in> set hist"
    using s st by auto
  have "\<forall>y\<in>set xs. - obs_date x \<le> - obs_date y"
    using sorted_sort_values_desc[of hist] s by simp
  then show "\<forall>r\<in>set hist. obs_date r \<le> obs_date (hd (sort_values_desc hist))"
    using s st by auto
qed

lemma map_add_upto: "map (\<lambda>x. D + x) [1..int n] = [D + 1..D + int n]"
proof (induction n)
  case 0
  show ?case by simp
next
  case (Suc n)
  have a: "[1..int (Suc n)] = [1..int n] @ [int (Suc n)]"
    using upto_rec2[of 1 "int (Suc n)"] by simp
  have b: "[D + 1..D + int (Suc n)] = [D + 1..D + int n] @ [D + int (Suc n)]"
    using upto_rec2[of "D + 1" "D + int (Suc n)"] by (simp add: add.commute add.left_commute)
  show ?case
    unfolding a b using Suc.IH by simp
qed

lemma map_add_upto_int: "map (\<lambda>x. D + x) [1..k] = [D + 1..D + k]"
proof (cases "0 \<le> k")
  case True
  then show ?thesis using map_add_upto[of D "nat k"] by simp
next
  case False
  then show ?thesis by simp
qed

lemma map2_replicate:
  "length xs = n \<Longrightarrow> map2 f xs (replicate n v) = map (\<lambda>x. f x v) xs"
  by (induction xs arbitrary: n) auto

lemma filter_upto_ge:
  assumes "a \<le> F"
  shows "filter (\<lambda>x. F \<le> x) [a..b] = [F..b]"
proof (cases "F \<le> b")
  case True
  have sp: "[a..b] = [a..F - 1] @ [F..b]"
    using upto_split1[OF assms True] .
  have "filter (\<lambda>x. F \<le> x) [a..F - 1] = []"
    by (auto simp: filter_empty_conv)
  moreover have "filter (\<lambda>x. F \<le> x) [F..b] = [F..b]"
    by (auto simp: filter_id_conv)
  ultimately show ?thesis unfolding sp by simp
next
  case False
  then show ?thesis by (auto simp: filter_empty_conv)
qed

lemma prediction_except_flat_line:
  assumes le: "\<forall>r\<in>set (data self). obs_date r < fcst_first_date self \<longrightarrow> obs_date r \<le> D"
    and ex: "\<exists>r\<in>set (data self). obs_date r = D"
    and val: "\<forall>r\<in>set (data self). obs_date r = D \<longrightarrow> obs_metric r = V"
    and lt: "D < fcst_first_date self"
  shows "prediction_except self =
    Inr (map (\<lambda>d. \<lparr>f_date = d, f_value = V\<rparr>)
          (if future_only self
           then [fcst_first_date self..fcst_first_date self + fcst_horizon self - 1]
           else [D + 1..fcst_first_date self + fcst_horizon self - 1]))"
proof -
  let ?F = "fcst_first_date self"
  let ?h = "fcst_horizon self"
  define hist where "hist = filter (\<lambda>r. obs_date r < ?F) (data self)"
  have sh: "set hist = {r \<in> set (data self). obs_date r < ?F}"
    by (simp add: hist_def)
  have hle: "\<forall>r\<in>set hist. obs_date r \<le> D"
    using le sh by auto
  have hex: "\<exists>r\<in>set hist. obs_date r = D"
    using ex lt sh by auto
  have hval: "\<forall>r\<in>set hist. obs_date r = D \<longrightarrow> obs_metric r = V"
    using val sh by auto
  have ne: "hist \<noteq> []"
    using hex by auto
  have mx: "Max (set (map obs_date hist)) = D"
    using hle hex by (intro Max_eqI) auto
  have hd_in: "hd (sort_values_desc hist) \<in> set hist"
    and hd_ge: "\<forall>r\<in>set hist. obs_date r \<le> obs_date (hd (sort_values_desc hist))"
    using hd_sort_values_desc[OF ne] by simp_all
  have "obs_date (hd (sort_values_desc hist)) = D"
    using hd_in hd_ge hle hex by (metis order_antisym)
  then have lv: "obs_metric (hd (sort_values_desc hist)) = V"
    using hval hd_in by blast
  let ?H = "?F - D + ?h - 1"
  have len: "length (map (\<lambda>x. D + x) [1..?H]) = nat ?H"
    by simp
  have e1: "map (\<lambda>x. D + x) [1..?H] = [D + 1..D + ?H]"
    by (rule map_add_upto_int)
  have e2: "D + ?H = ?F + ?h - 1"
    by simp
  have "map2 (\<lambda>d v. \<lparr>f_date = d, f_value = v\<rparr>) (map (\<lambda>x. D + x) [1..?H])
          (replicate (nat ?H) V)
      = map (\<lambda>d. \<lparr>f_date = d, f_value = V\<rparr>) (map (\<lambda>x. D + x) [1..?H])"
    by (rule map2_replicate[OF len])
  also have "\<dots> = map (\<lambda>d. \<lparr>f_date = d, f_value = V\<rparr>) [D + 1..D + ?H]"
    by (simp only: e1)
  also have "\<dots> = map (\<lambda>d. \<lparr>f_date = d, f_value = V\<rparr>) [D + 1..?F + ?h - 1]"
    by (simp only: e2)
  finally have pred: "map2 (\<lambda>d v. \<lparr>f_date = d, f_value = v\<rparr>) (map (\<lambda>x. D + x) [1..?H])
                (replicate (nat ?H) V)
      = map (\<lambda>d. \<lparr>f_date = d, f_value = V\<rparr>) [D + 1..?F + ?h - 1]" .
  have flt: "filter (\<lambda>r. ?F \<le> f_date r)
        (map (\<lambda>d. \<lparr>f_date = d, f_value = V\<rparr>) [D + 1..?F + ?h - 1])
      = map (\<lambda>d. \<lparr>f_date = d, f_value = V\<rparr>) [?F..?F + ?h - 1]"
    using filter_upto_ge[of "D + 1" ?F "?F + ?h - 1"] lt
    by (simp add: filter_map comp_def)
  show ?thesis
    unfolding prediction_except_def Let_def hist_def[symmetric] mx lv pred
    using ne flt by simp
qed

lemma prediction_fallback:
  "prediction_try env self = Inl e \<Longrightarrow>
   prediction env self = map_sum id (finish_prediction self) (prediction_except self)"
  by (cases "prediction_except self") (simp_all add: prediction_def)

lemma prediction_returns_with_history:
  assumes "\<exists>r\<in>set (data self). obs_date r < fcst_first_date self"
  shows "\<exists>rows. prediction env self = Inr rows"
proof -
  have "filter (\<lambda>r. obs_date r < fcst_first_date self) (data self) \<noteq> []"
    using assms by (auto simp: filter_empty_conv)
  then obtain fc where "prediction_except self = Inr fc"
    by (simp add: prediction_except_def Let_def)
  then show ?thesis
    by (cases "prediction_try env self") (simp_all add: prediction_def)
qed

lemma upto_five: "[D + 3..D + 7] = [D + 3, D + 4, D + 5, D + 6, D + (7::int)]"
  by (simp add: upto_rec1)

text \<open>
  C4, as the code has it. On the fallback path, with the historical rows (those dated
  before \<^verbatim>\<open>fcst_first_date\<close>) ending at day \<open>D\<close> with last value \<open>V\<close>,
  \<open>fcst_first_date = D + 3\<close>, \<open>fcst_horizon = 5\<close> and \<open>future_only\<close>, the returned
  forecast is exactly the rows for the dates \<open>D + 3\<close> to \<open>D + 7\<close>, each with the forecast
  \<open>max V 0\<close>: the value \<open>V\<close> clamped at zero. Rows of the data dated on or after
  \<^verbatim>\<open>fcst_first_date\<close> play no part. (The general form, with the adjusted horizon
  \<open>difference + fcst_horizon - 1\<close> counted from \<open>D + 1\<close>, is
  \<open>prediction_except_flat_line\<close>.)
\<close>

theorem prediction_fallback_example:
  assumes "prediction_try env self = Inl e"
    and "\<forall>r\<in>set (data self). obs_date r < fcst_first_date self \<longrightarrow> obs_date r \<le> D"
    and "\<exists>r\<in>set (data self). obs_date r = D"
    and "\<forall>r\<in>set (data self). obs_date r = D \<longrightarrow> obs_metric r = V"
    and "fcst_first_date self = D + 3" and "fcst_horizon self = 5" and "future_only self"
  shows "prediction env self =
    Inr (map (\<lambda>d. \<lparr>p_date = d, p_fcst = max V 0, p_reference = D + 3,
                   p_creation = current_date self, p_key = key_code self\<rparr>)
          [D + 3, D + 4, D + 5, D + 6, D + 7])"
proof -
  have lt: "D < fcst_first_date self"
    using assms(5) by simp
  have e: "D + 3 + fcst_horizon self - 1 = D + 7"
    using assms(6) by simp
  have "prediction_except self =
      Inr (map (\<lambda>d. \<lparr>f_date = d, f_value = V\<rparr>) [D + 3, D + 4, D + 5, D + 6, D + 7])"
    using prediction_except_flat_line[OF assms(2,3,4) lt]
    by (simp only: e assms(5,7) if_True upto_five)
  then show ?thesis
    unfolding prediction_fallback[OF assms(1)]
    using assms(5) by (simp add: finish_prediction_def max_def)
qed

lemma demo_prediction_try: "prediction_try demo_env self = Inl ExternalFailure"
  by (simp add: prediction_try_def demo_env_def)

theorem prediction_fallback_example_witness:
  "prediction_try demo_env (demo_modeler\<lparr>data := demo_later_series\<rparr>) = Inl ExternalFailure \<and>
   fcst_first_date (demo_modeler\<lparr>data := demo_later_series\<rparr>) = 6 + 3 \<and>
   fcst_horizon (demo_modeler\<lparr>data := demo_later_series\<rparr>) = 5 \<and>
   future_only (demo_modeler\<lparr>data := demo_later_series\<rparr>) \<and>
   prediction demo_env (demo_modeler\<lparr>data := demo_later_series\<rparr>) =
     Inr [\<lparr>p_date = 9, p_fcst = 60, p_reference = 9, p_creation = 6, p_key = ''k''\<rparr>,
          \<lparr>p_date = 10, p_fcst = 60, p_reference = 9, p_creation = 6, p_key = ''k''\<rparr>,
          \<lparr>p_date = 11, p_fcst = 60, p_reference = 9, p_creation = 6, p_key = ''k''\<rparr>,
          \<lparr>p_date = 12, p_fcst = 60, p_reference = 9, p_creation = 6, p_key = ''k''\<rparr>,
          \<lparr>p_date = 13, p_fcst = 60, p_reference = 9, p_creation = 6, p_key = ''k''\<rparr>]"
proof -
  let ?m = "demo_modeler\<lparr>data := demo_later_series\<rparr>"
  have d: "data ?m = demo_later_series" "fcst_first_date ?m = 6 + 3"
    "fcst_horizon ?m = 5" "future_only ?m"
    "current_date ?m = 6" "key_code ?m = ''k''"
    by (simp_all add: demo_modeler_def)
  have h1: "\<forall>r\<in>set (data ?m). obs_date r < fcst_first_date ?m \<longrightarrow> obs_date r \<le> 6"
    and h2: "\<exists>r\<in>set (data ?m). obs_date r = 6"
    and h3: "\<forall>r\<in>set (data ?m). obs_date r = 6 \<longrightarrow> obs_metric r = 60"
    unfolding d by (simp_all add: demo_later_series_def demo_series_def)
  show ?thesis
    using prediction_fallback_example[OF demo_prediction_try h1 h2 h3 d(2) d(3) d(4)]
    by (simp add: d demo_prediction_try)
qed

text \<open>
  With a last value of \<open>-1\<close> the returned forecast is not \<open>-1\<close> on the five dates, but
  zero.
\<close>

theorem prediction_fallback_negative_value:
  "prediction demo_env
     (demo_modeler\<lparr>data := [\<lparr>obs_key = ''k'', obs_date = 6, obs_metric = - 1\<rparr>]\<rparr>) \<noteq>
     Inr [\<lparr>p_date = 9, p_fcst = - 1, p_reference = 9, p_creation = 6, p_key = ''k''\<rparr>,
          \<lparr>p_date = 10, p_fcst = - 1, p_reference = 9, p_creation = 6, p_key = ''k''\<rparr>,
          \<lparr>p_date = 11, p_fcst = - 1, p_reference = 9, p_creation = 6, p_key = ''k''\<rparr>,
          \<lparr>p_date = 12, p_fcst = - 1, p_reference = 9, p_creation = 6, p_key = ''k''\<rparr>,
          \<lparr>p_date = 13, p_fcst = - 1, p_reference = 9, p_creation = 6, p_key = ''k''\<rparr>] \<and>
   prediction demo_env
     (demo_modeler\<lparr>data := [\<lparr>obs_key = ''k'', obs_date = 6, obs_metric = - 1\<rparr>]\<rparr>) =
     Inr [\<lparr>p_date = 9, p_fcst = 0, p_reference = 9, p_creation = 6, p_key = ''k''\<rparr>,
          \<lparr>p_date = 10, p_fcst = 0, p_reference = 9, p_creation = 6, p_key = ''k''\<rparr>,
          \<lparr>p_date = 11, p_fcst = 0, p_reference = 9, p_creation = 6, p_key = ''k''\<rparr>,
          \<lparr>p_date = 12, p_fcst = 0, p_reference = 9, p_creation = 6, p_key = ''k''\<rparr>,
          \<lparr>p_date = 13, p_fcst = 0, p_reference = 9, p_creation = 6, p_key = ''k''\<rparr>]"
proof -
  let ?m = "demo_modeler\<lparr>data := [\<lparr>obs_key = ''k'', obs_date = 6, obs_metric = - 1\<rparr>]\<rparr>"
  have h1: "\<forall>r\<in>set (data ?m). obs_date r < fcst_first_date ?m \<longrightarrow> obs_date r \<le> 6"
    and h2: "\<exists>r\<in>set (data ?m). obs_date r = 6"
    and h3: "\<forall>r\<in>set (data ?m). obs_date r = 6 \<longrightarrow> obs_metric r = - 1"
    and h4: "6 < fcst_first_date ?m"
    by (simp_all add: demo_modeler_def)
  have u: "[9..13] = [9, 10, 11, 12, 13::int]"
    by (simp add: upto_rec1)
  have e: "prediction_except ?m =
      Inr (map (\<lambda>d. \<lparr>f_date = d, f_value = - 1\<rparr>) [9, 10, 11, 12, 13])"
    using prediction_except_flat_line[OF h1 h2 h3 h4]
    by (simp add: demo_modeler_def u)
  have "prediction demo_env ?m =
     Inr [\<lparr>p_date = 9, p_fcst = 0, p_reference = 9, p_creation = 6, p_key = ''k''\<rparr>,
          \<lparr>p_date = 10, p_fcst = 0, p_reference = 9, p_creation = 6, p_key = ''k''\<rparr>,
          \<lparr>p_date = 11, p_fcst = 0, p_reference = 9, p_creation = 6, p_key = ''k''\<rparr>,
          \<lparr>p_date = 12, p_fcst = 0, p_reference = 9, p_creation = 6, p_key = ''k''\<rparr>,
          \<lparr>p_date = 13, p_fcst = 0, p_reference = 9, p_creation = 6, p_key = ''k''\<rparr>]"
    unfolding prediction_fallback[OF demo_prediction_try] e
    by (simp add: finish_prediction_def demo_modeler_def)
  then show ?thesis by simp
qed

text \<open>
  C9. Whenever \<^verbatim>\<open>prediction\<close> returns, its rows are those of the forecast of the path
  taken, the primary path's when the production model predicted and the fallback's
  otherwise, with the same dates in the same order, and each forecast value \<open>x\<close> replaced
  by \<open>x\<close> when \<open>x \<ge> 0\<close> and by zero otherwise. So every returned row has a forecast value
  that is at least zero, and the values that were not negative are returned as they were.
\<close>

theorem prediction_nonnegative:
  assumes "prediction env self = Inr rows"
  shows "\<exists>pred.
     (prediction_try env self = Inr pred \<or>
      (\<exists>e. prediction_try env self = Inl e) \<and> prediction_except self = Inr pred) \<and>
     map p_date rows = map f_date pred \<and>
     map p_fcst rows = map (\<lambda>r. if f_value r < 0 then 0 else f_value r) pred \<and>
     (\<forall>r\<in>set rows. 0 \<le> p_fcst r)"
proof (cases "prediction_try env self")
  case (Inr pred)
  then have "rows = finish_prediction self pred"
    using assms by (simp add: prediction_def)
  then have "map p_date rows = map f_date pred"
    and "map p_fcst rows = map (\<lambda>r. if f_value r < 0 then 0 else f_value r) pred"
    and "\<forall>r\<in>set rows. 0 \<le> p_fcst r"
    by (auto simp: finish_prediction_def)
  then show ?thesis using Inr by blast
next
  case (Inl e)
  then obtain pred where ex: "prediction_except self = Inr pred"
    and "rows = finish_prediction self pred"
    using assms by (cases "prediction_except self") (simp_all add: prediction_def)
  then have "map p_date rows = map f_date pred"
    and "map p_fcst rows = map (\<lambda>r. if f_value r < 0 then 0 else f_value r) pred"
    and "\<forall>r\<in>set rows. 0 \<le> p_fcst r"
    by (auto simp: finish_prediction_def)
  then show ?thesis using Inl ex by blast
qed

lemma demo_mixed_prediction_try:
  "prediction_try demo_mixed_env demo_modeler =
     Inr [\<lparr>f_date = 9, f_value = - 3\<rparr>, \<lparr>f_date = 10, f_value = 0\<rparr>,
          \<lparr>f_date = 11, f_value = 7\<rparr>]"
  by (simp add: prediction_try_def demo_mixed_env_def demo_env_def demo_modeler_def
      model_generation_def demo_backend_def)

theorem prediction_nonnegative_witness:
  "prediction demo_mixed_env demo_modeler =
     Inr [\<lparr>p_date = 9, p_fcst = 0, p_reference = 9, p_creation = 6, p_key = ''k''\<rparr>,
          \<lparr>p_date = 10, p_fcst = 0, p_reference = 9, p_creation = 6, p_key = ''k''\<rparr>,
          \<lparr>p_date = 11, p_fcst = 7, p_reference = 9, p_creation = 6, p_key = ''k''\<rparr>] \<and>
   prediction_try demo_mixed_env demo_modeler =
     Inr [\<lparr>f_date = 9, f_value = - 3\<rparr>, \<lparr>f_date = 10, f_value = 0\<rparr>,
          \<lparr>f_date = 11, f_value = 7\<rparr>] \<and>
   map p_fcst
     [\<lparr>p_date = 9, p_fcst = 0, p_reference = 9, p_creation = 6, p_key = ''k''\<rparr>,
      \<lparr>p_date = 10, p_fcst = 0, p_reference = 9, p_creation = 6, p_key = ''k''\<rparr>,
      \<lparr>p_date = 11, p_fcst = 7, p_reference = 9, p_creation = 6, p_key = ''k''\<rparr>] =
   map (\<lambda>r. if f_value r < 0 then 0 else f_value r)
     [\<lparr>f_date = 9, f_value = - 3\<rparr>, \<lparr>f_date = 10, f_value = 0\<rparr>,
      \<lparr>f_date = 11, f_value = 7\<rparr>]"
proof -
  have p: "prediction demo_mixed_env demo_modeler =
     Inr [\<lparr>p_date = 9, p_fcst = 0, p_reference = 9, p_creation = 6, p_key = ''k''\<rparr>,
          \<lparr>p_date = 10, p_fcst = 0, p_reference = 9, p_creation = 6, p_key = ''k''\<rparr>,
          \<lparr>p_date = 11, p_fcst = 7, p_reference = 9, p_creation = 6, p_key = ''k''\<rparr>]"
    unfolding prediction_def demo_mixed_prediction_try
    by (simp add: finish_prediction_def demo_modeler_def)
  show ?thesis
    using prediction_nonnegative[OF p] p demo_mixed_prediction_try by simp
qed

text \<open>
  C3. \<^verbatim>\<open>prediction\<close> returns whenever some row lies before \<^verbatim>\<open>fcst_first_date\<close>
  (\<open>prediction_returns_with_history\<close>), and every failure of the primary path leads to
  the fallback (\<open>prediction_fallback\<close>). The fallback itself is outside any \<^verbatim>\<open>try\<close>: when
  the registry has no loadable model and the data has no row before
  \<^verbatim>\<open>fcst_first_date\<close>, the exception of the fallback reaches the caller.
\<close>

theorem prediction_raises_without_history:
  "prediction demo_env (demo_modeler\<lparr>fcst_first_date := 1\<rparr>) = Inl TypeError"
  by (simp add: prediction_def prediction_try_def prediction_except_def demo_env_def
      demo_modeler_def demo_series_def)

subsection \<open>Competition\<close>

lemma standardize_loop_cols:
  assumes "distinct metrics"
    and "\<forall>m\<in>set metrics. map_of (metric_cols df) m \<noteq> None"
  shows "fst (standardize_loop metrics df) = None \<and>
         (\<forall>m. map_of (metric_cols (snd (standardize_loop metrics df))) m =
            (if m \<in> set metrics
             then map_option (\<lambda>col. map (\<lambda>x. x - series_mean col / series_std col) col)
                    (map_of (metric_cols df) m)
             else map_of (metric_cols df) m))"
  using assms
proof (induction metrics arbitrary: df)
  case Nil
  show ?case by simp
next
  case (Cons metric metrics)
  from Cons.prems obtain col where col: "map_of (metric_cols df) metric = Some col"
    by auto
  let ?df = "df\<lparr>metric_cols :=
      AList.update metric (map (\<lambda>x. x - series_mean col / series_std col) col) (metric_cols df)\<rparr>"
  have step: "standardize_loop (metric # metrics) df = standardize_loop metrics ?df"
    by (simp add: col Let_def)
  have d: "distinct metrics" and notin: "metric \<notin> set metrics"
    using Cons.prems(1) by simp_all
  have dom: "\<forall>m\<in>set metrics. map_of (metric_cols ?df) m \<noteq> None"
    using Cons.prems(2) by (simp add: update_conv')
  from Cons.IH[OF d dom] notin col show ?case
    unfolding step by (auto simp: update_conv')
qed

lemma standardize_loop_defined:
  assumes "\<forall>m\<in>set metrics. map_of (metric_cols df) m \<noteq> None"
  shows "fst (standardize_loop metrics df) = None \<and>
         row_names (snd (standardize_loop metrics df)) = row_names df \<and>
         (\<forall>m. map_of (metric_cols (snd (standardize_loop metrics df))) m \<noteq> None
                \<longleftrightarrow> map_of (metric_cols df) m \<noteq> None) \<and>
         (\<forall>m col. map_of (metric_cols (snd (standardize_loop metrics df))) m = Some col \<longrightarrow>
                (\<exists>col0. map_of (metric_cols df) m = Some col0 \<and> length col = length col0))"
  using assms
proof (induction metrics arbitrary: df)
  case Nil
  show ?case by simp
next
  case (Cons metric metrics)
  from Cons.prems obtain col where col: "map_of (metric_cols df) metric = Some col"
    by auto
  let ?df = "df\<lparr>metric_cols :=
      AList.update metric (map (\<lambda>x. x - series_mean col / series_std col) col) (metric_cols df)\<rparr>"
  have step: "standardize_loop (metric # metrics) df = standardize_loop metrics ?df"
    by (simp add: col Let_def)
  have dom: "\<forall>m\<in>set metrics. map_of (metric_cols ?df) m \<noteq> None"
    using Cons.prems by (simp add: update_conv')
  from Cons.IH[OF dom] col show ?case
    unfolding step by (auto simp: update_conv' split: if_splits)
qed

lemma competition_metric_cols:
  "metric_cols (df_performances (competition self)) =
   metric_cols (snd (standardize_loop (fcst_competition_metrics self) (df_performances self)))"
  by (simp add: competition_def Let_def split: prod.splits option.splits sum.splits)

text \<open>
  C1. In the competition step every metric column of the performance table, over all its
  rows, is replaced value by value: \<open>x\<close> becomes \<open>x - mean / std\<close>, the column's mean
  divided by its standard deviation subtracted from \<open>x\<close>, which is not the conventional
  \<open>(x - mean) / std\<close>. (The metric names are distinct column names, and no column has a
  zero standard deviation: there the floating-point quotient is not a number.) The
  instance below differs from the conventional transform in its first row.
\<close>

theorem competition_standardizes:
  assumes "distinct (fcst_competition_metrics self)"
    and "\<forall>m\<in>set (fcst_competition_metrics self).
           \<exists>c. map_of (metric_cols (df_performances self)) m = Some c \<and> series_std c \<noteq> 0"
    and "metric \<in> set (fcst_competition_metrics self)"
    and "map_of (metric_cols (df_performances self)) metric = Some col"
  shows "map_of (metric_cols (df_performances (competition self))) metric =
         Some (map (\<lambda>x. x - series_mean col / series_std col) col)"
proof -
  have "\<forall>m\<in>set (fcst_competition_metrics self).
          map_of (metric_cols (df_performances self)) m \<noteq> None"
    using assms(2) by auto
  from standardize_loop_cols[OF assms(1) this] assms(3,4) show ?thesis
    by (simp add: competition_metric_cols)
qed

lemma demo_std:
  "series_mean [4, 0, 0, 0] = 1" "series_std [4, 0, 0, 0] = 2"
  "series_mean [5, 1, 1, 1] = 2" "series_std [5, 1, 1, 1] = 2"
  by (simp_all add: series_mean_def series_std_def)

theorem competition_standardizes_witness:
  "distinct [''rmse'', ''mape''] \<and> series_std [4, 0, 0, 0] \<noteq> 0 \<and> series_std [5, 1, 1, 1] \<noteq> 0 \<and>
   map_of (metric_cols (df_performances
       (competition (demo_modeler\<lparr>df_performances := demo_performances\<rparr>)))) ''rmse''
     = Some [7 / 2, - 1 / 2, - 1 / 2, - 1 / 2] \<and>
   [7 / 2, - 1 / 2, - 1 / 2, - 1 / 2] \<noteq> [(4 - 1) / 2, (0 - 1) / 2, (0 - 1) / 2, (0 - 1) / (2::real)]"
proof -
  let ?m = "demo_modeler\<lparr>df_performances := demo_performances\<rparr>"
  have m: "fcst_competition_metrics ?m = [''rmse'', ''mape'']"
    "metric_cols (df_performances ?m) = [(''rmse'', [4, 0, 0, 0]), (''mape'', [5, 1, 1, 1])]"
    by (simp_all add: demo_modeler_def demo_performances_def)
  have h2: "\<forall>m\<in>set (fcst_competition_metrics ?m).
           \<exists>c. map_of (metric_cols (df_performances ?m)) m = Some c \<and> series_std c \<noteq> 0"
    unfolding m by (simp add: demo_std)
  have h1: "distinct (fcst_competition_metrics ?m)"
    unfolding m by simp
  have h3: "''rmse'' \<in> set (fcst_competition_metrics ?m)"
    unfolding m by simp
  have h4: "map_of (metric_cols (df_performances ?m)) ''rmse'' = Some [4, 0, 0, 0]"
    unfolding m by simp
  show ?thesis
    using competition_standardizes[OF h1 h2 h3 h4]
    by (simp add: demo_std)
qed

lemma those_map_of:
  assumes "\<forall>m\<in>set metrics. map_of cols m \<noteq> None"
  shows "those (map (map_of cols) metrics) = Some (map (\<lambda>m. the (map_of cols m)) metrics)"
  using assms by (induction metrics) auto

lemma row_error_avg_eq:
  assumes "\<forall>m\<in>set metrics. map_of (metric_cols df) m \<noteq> None"
    and "length weights = length metrics"
  shows "row_error_avg metrics weights df i =
    Inr (sum_list (map2 (*) (map (\<lambda>m. the (map_of (metric_cols df) m) ! i) metrics) weights)
         / sum_list weights)"
  using assms
  by (simp add: row_error_avg_def those_map_of np_binop_def comp_def)

lemma collect_map_Inr: "collect (map (\<lambda>x. Inr (g x)) xs) = Inr (map g xs)"
  by (induction xs) auto

lemma compute_error_avg_eq:
  assumes "\<forall>m\<in>set metrics. map_of (metric_cols df) m \<noteq> None"
    and "length weights = length metrics"
  shows "compute_error_avg metrics weights df =
    Inr (map (\<lambda>i. sum_list (map2 (*) (map (\<lambda>m. the (map_of (metric_cols df) m) ! i) metrics)
                     weights) / sum_list weights)
          [0..<length (row_names df)])"
proof -
  have eq: "map (row_error_avg metrics weights df) [0..<length (row_names df)] =
      map (\<lambda>i. Inr (sum_list (map2 (*) (map (\<lambda>m. the (map_of (metric_cols df) m) ! i) metrics)
                     weights) / sum_list weights)) [0..<length (row_names df)]"
    using row_error_avg_eq[OF assms] by simp
  show ?thesis
    unfolding compute_error_avg_def eq by (rule collect_map_Inr)
qed

lemma argmin_scan_first:
  assumes "i = length ys" and "bi < length ys" and "ys ! bi = best"
    and "\<forall>j<length ys. best \<le> ys ! j" and "\<forall>j<bi. best < ys ! j"
  shows "let k = argmin_scan xs i best bi in
         k < length (ys @ xs) \<and> (\<forall>j<length (ys @ xs). (ys @ xs) ! k \<le> (ys @ xs) ! j) \<and>
         (\<forall>j<k. (ys @ xs) ! k < (ys @ xs) ! j)"
  using assms
proof (induction xs arbitrary: ys i best bi)
  case Nil
  then show ?case by (simp add: Let_def)
next
  case (Cons x xs)
  show ?case
  proof (cases "x < best")
    case True
    have a: "Suc i = length (ys @ [x])" using Cons.prems(1) by simp
    have b: "i < length (ys @ [x])" using Cons.prems(1) by simp
    have c: "(ys @ [x]) ! i = x" using Cons.prems(1) by simp
    have d: "\<forall>j<length (ys @ [x]). x \<le> (ys @ [x]) ! j"
      using Cons.prems(4) True by (auto simp: nth_append less_Suc_eq)
    have e: "\<forall>j<i. x < (ys @ [x]) ! j"
      using Cons.prems(1,4) True by (auto simp: nth_append)
    from Cons.IH[OF a b c d e] True show ?thesis
      by (simp add: Let_def)
  next
    case False
    have a: "Suc i = length (ys @ [x])" using Cons.prems(1) by simp
    have b: "bi < length (ys @ [x])" using Cons.prems(2) by simp
    have c: "(ys @ [x]) ! bi = best" using Cons.prems(2,3) by (simp add: nth_append)
    have d: "\<forall>j<length (ys @ [x]). best \<le> (ys @ [x]) ! j"
      using Cons.prems(4) False by (auto simp: nth_append less_Suc_eq)
    have e: "\<forall>j<bi. best < (ys @ [x]) ! j"
      using Cons.prems(2,5) by (auto simp: nth_append)
    from Cons.IH[OF a b c d e] False show ?thesis
      by (simp add: Let_def)
  qed
qed

lemma argmin_first:
  assumes "xs \<noteq> []"
  shows "\<exists>k. argmin xs = Inr k \<and> k < length xs \<and> (\<forall>j<length xs. xs ! k \<le> xs ! j) \<and>
             (\<forall>j<k. xs ! k < xs ! j)"
proof -
  obtain x xs' where xs: "xs = x # xs'"
    using assms by (cases xs) auto
  have "let k = argmin_scan xs' 1 x 0 in
         k < length ([x] @ xs') \<and> (\<forall>j<length ([x] @ xs'). ([x] @ xs') ! k \<le> ([x] @ xs') ! j) \<and>
         (\<forall>j<k. ([x] @ xs') ! k < ([x] @ xs') ! j)"
    by (rule argmin_scan_first) simp_all
  then show ?thesis
    unfolding xs by (simp add: argmin_def Let_def)
qed

text \<open>
  C7. After the competition step the composite score of every row is the sum of the
  row's (standardized) metric values times the weights, paired by position, divided by
  the sum of the weights; the winning model is the row whose score is minimal, and among
  several minimal rows the first in table order. (The table has a row, every metric is a
  column whose standard deviation is not zero, so that the standardized values are
  numbers, there is one weight per metric and the weights do not sum to zero.)
\<close>

theorem competition_winner:
  assumes std: "\<forall>m\<in>set (fcst_competition_metrics self).
                   \<exists>c. map_of (metric_cols (df_performances self)) m = Some c \<and>
                       series_std c \<noteq> 0"
    and rows: "row_names (df_performances self) \<noteq> []"
    and shape: "\<forall>mc\<in>set (metric_cols (df_performances self)).
                   length (snd mc) = length (row_names (df_performances self))"
    and len: "length (fcst_competition_metric_weights self) =
              length (fcst_competition_metrics self)"
    and wsum: "sum_list (fcst_competition_metric_weights self) \<noteq> 0"
  shows "\<exists>avg k.
     col_error_avg (df_performances (competition self)) = Some avg \<and>
     length avg = length (row_names (df_performances self)) \<and>
     (\<forall>i<length avg.
        avg ! i =
          sum_list (map2 (*)
            (map (\<lambda>m. the (map_of (metric_cols (df_performances (competition self))) m) ! i)
               (fcst_competition_metrics self))
            (fcst_competition_metric_weights self))
          / sum_list (fcst_competition_metric_weights self)) \<and>
     k < length avg \<and>
     winning_model_name (competition self) = Some (row_names (df_performances self) ! k) \<and>
     (\<forall>j<length avg. avg ! k \<le> avg ! j) \<and>
     (\<forall>j<k. avg ! k < avg ! j)"
proof -
  let ?ms = "fcst_competition_metrics self"
  let ?ws = "fcst_competition_metric_weights self"
  have cols: "\<forall>m\<in>set ?ms. map_of (metric_cols (df_performances self)) m \<noteq> None"
    using std by auto
  obtain r df1 where sl0: "standardize_loop ?ms (df_performances self) = (r, df1)"
    by (cases "standardize_loop ?ms (df_performances self)") auto
  from standardize_loop_defined[OF cols] sl0
  have ok: "r = None"
    and rn: "row_names df1 = row_names (df_performances self)"
    and dom: "\<forall>m. map_of (metric_cols df1) m \<noteq> None
                \<longleftrightarrow> map_of (metric_cols (df_performances self)) m \<noteq> None"
    by simp_all
  have sl: "standardize_loop ?ms (df_performances self) = (None, df1)"
    using sl0 ok by simp
  have cols1: "\<forall>m\<in>set ?ms. map_of (metric_cols df1) m \<noteq> None"
    using cols dom by blast
  define avg where "avg = map (\<lambda>i. sum_list (map2 (*)
        (map (\<lambda>m. the (map_of (metric_cols df1) m) ! i) ?ms) ?ws) / sum_list ?ws)
      [0..<length (row_names df1)]"
  have avg: "compute_error_avg ?ms ?ws df1 = Inr avg"
    unfolding avg_def by (rule compute_error_avg_eq[OF cols1 len])
  have ne: "avg \<noteq> []"
    using rows rn by (simp add: avg_def)
  from argmin_first[OF ne] obtain k where k: "argmin avg = Inr k" "k < length avg"
    "\<forall>j<length avg. avg ! k \<le> avg ! j" "\<forall>j<k. avg ! k < avg ! j"
    by blast
  have comp: "competition self =
      self\<lparr>df_performances := df1\<lparr>col_error_avg := Some avg\<rparr>,
           winning_model_name := Some (row_names df1 ! k)\<rparr>"
    by (simp add: competition_def sl avg k(1) Let_def)
  have c1: "col_error_avg (df_performances (competition self)) = Some avg"
    by (simp add: comp)
  have c2: "length avg = length (row_names (df_performances self))"
    using rn by (simp add: avg_def)
  have mc: "metric_cols (df_performances (competition self)) = metric_cols df1"
    by (simp add: comp)
  have c3: "\<forall>i<length avg. avg ! i =
          sum_list (map2 (*)
            (map (\<lambda>m. the (map_of (metric_cols (df_performances (competition self))) m) ! i) ?ms)
            ?ws) / sum_list ?ws"
    unfolding mc by (simp add: avg_def)
  have c4: "winning_model_name (competition self) = Some (row_names (df_performances self) ! k)"
    using rn by (simp add: comp)
  show ?thesis
    using c1 c2 c3 c4 k(2,3,4) by blast
qed

lemma demo_standardized:
  "standardize_loop [''rmse'', ''mape''] demo_performances =
     (None, demo_performances\<lparr>metric_cols :=
        [(''rmse'', [7 / 2, - (1 / 2), - (1 / 2), - (1 / 2)]), (''mape'', [4, 0, 0, 0])]\<rparr>)"
  by (simp add: demo_performances_def demo_std)

lemma demo_error_avg:
  "compute_error_avg [''rmse'', ''mape''] [1, 1]
     (demo_performances\<lparr>metric_cols :=
        [(''rmse'', [7 / 2, - (1 / 2), - (1 / 2), - (1 / 2)]), (''mape'', [4, 0, 0, 0])]\<rparr>)
   = Inr [15 / 4, - (1 / 4), - (1 / 4), - (1 / 4)]"
  by (simp add: compute_error_avg_def row_error_avg_def np_binop_def demo_performances_def
      upt_rec)

lemma demo_competition:
  "competition (demo_modeler\<lparr>df_performances := demo_performances\<rparr>) =
   demo_modeler\<lparr>df_performances := demo_performances\<lparr>metric_cols :=
        [(''rmse'', [7 / 2, - (1 / 2), - (1 / 2), - (1 / 2)]), (''mape'', [4, 0, 0, 0])],
        col_error_avg := Some [15 / 4, - (1 / 4), - (1 / 4), - (1 / 4)]\<rparr>,
      winning_model_name := Some ''pmdarima_1''\<rparr>"
proof -
  have m: "fcst_competition_metrics (demo_modeler\<lparr>df_performances := demo_performances\<rparr>)
      = [''rmse'', ''mape'']"
    "fcst_competition_metric_weights (demo_modeler\<lparr>df_performances := demo_performances\<rparr>)
      = [1, 1]"
    by (simp_all add: demo_modeler_def)
  have a: "argmin [15 / 4, - (1 / 4), - (1 / 4), - (1 / (4::real))] = Inr 1"
    by (simp add: argmin_def)
  have rn: "row_names demo_performances ! Suc 0 = ''pmdarima_1''"
    by (simp add: demo_performances_def)
  show ?thesis
    unfolding competition_def m
    by (simp add: demo_standardized demo_error_avg a Let_def rn del: standardize_loop.simps)
qed

theorem competition_winner_witness:
  "row_names demo_performances \<noteq> [] \<and>
   series_std [4, 0, 0, 0] \<noteq> 0 \<and> series_std [5, 1, 1, 1] \<noteq> 0 \<and>
   length [1, 1 :: real] = length [''rmse'', ''mape''] \<and> sum_list [1, 1 :: real] \<noteq> 0 \<and>
   col_error_avg (df_performances
     (competition (demo_modeler\<lparr>df_performances := demo_performances\<rparr>)))
     = Some [15 / 4, - (1 / 4), - (1 / 4), - (1 / 4)] \<and>
   winning_model_name (competition (demo_modeler\<lparr>df_performances := demo_performances\<rparr>))
     = Some ''pmdarima_1''"
proof -
  let ?m = "demo_modeler\<lparr>df_performances := demo_performances\<rparr>"
  have m: "fcst_competition_metrics ?m = [''rmse'', ''mape'']"
    "fcst_competition_metric_weights ?m = [1, 1]"
    "df_performances ?m = demo_performances"
    by (simp_all add: demo_modeler_def)
  have h1: "\<forall>m\<in>set (fcst_competition_metrics ?m).
              \<exists>c. map_of (metric_cols (df_performances ?m)) m = Some c \<and> series_std c \<noteq> 0"
    unfolding m by (simp add: demo_performances_def demo_std)
  have h2: "row_names (df_performances ?m) \<noteq> []"
    unfolding m by (simp add: demo_performances_def)
  have h3: "\<forall>mc\<in>set (metric_cols (df_performances ?m)).
              length (snd mc) = length (row_names (df_performances ?m))"
    unfolding m by (simp add: demo_performances_def)
  have h4: "length (fcst_competition_metric_weights ?m) = length (fcst_competition_metrics ?m)"
    unfolding m by simp
  have h5: "sum_list (fcst_competition_metric_weights ?m) \<noteq> 0"
    unfolding m by simp
  show ?thesis
    using competition_winner[OF h1 h2 h3 h4 h5] h2
    by (simp add: demo_competition m demo_std)
qed

subsection \<open>Deployment\<close>

lemma unit_test_OK_iff:
  "unit_test env self name stage = Some ''OK'' \<longleftrightarrow>
   (\<exists>model flv krns fc.
      load_model env (''models:/'' @ name @ ''/'' @ stage) = Inr (model, flv) \<and>
      model_generation env flv [] (Some model) = Some krns \<and>
      predict krns (n_unit_test self) (Some (today env + 1)) True = Inr (Some fc) \<and>
      int (length fc) = n_unit_test self)"
  by (auto simp: unit_test_def split: sum.splits option.splits prod.splits)

lemma deploy_reaches_gate:
  assumes "winning_model_name self = Some winner"
    and "index_of winner (row_names (df_performances self)) = Some i"
    and "col_model_config (df_performances self) ! i = Some cfg"
    and "register_model env
           (''runs:/'' @ (case col_run_id (df_performances self) ! i of
                            None \<Rightarrow> ''None'' | Some r \<Rightarrow> r) @ ''/model'')
           (key_code self) = None"
    and "''model_flavor'' \<in> fst ` set cfg \<longrightarrow>
           set_model_tag env (config_get cfg ''model_flavor'' []) = None"
    and "promote_model env ''staging'' = None"
  shows "deploy env self mlf =
    (let model_details = fst (mlf_register_model (key_code self) mlf);
         mlf1 = snd (mlf_register_model (key_code self) mlf);
         model_version = fst (mlf_promote_model model_details Staging mlf1);
         mlf2 = snd (mlf_promote_model model_details Staging mlf1)
     in if unit_test env self (key_code self) ''Staging'' = Some ''OK''
        then (case promote_model env ''production'' of
                Some e \<Rightarrow> mlf2
              | None \<Rightarrow> snd (mlf_promote_model model_version Production mlf2))
        else mlf2)"
proof -
  have tag: "(if ''model_flavor'' \<in> fst ` set cfg
              then set_model_tag env (config_get cfg ''model_flavor'' []) else None) = None"
    using assms(5) by simp
  have nm: "mv_name (fst (mlf_promote_model
                (fst (mlf_register_model (key_code self) mlf)) Staging m)) = key_code self"
    "mv_current_stage (fst (mlf_promote_model
                (fst (mlf_register_model (key_code self) mlf)) Staging m)) = ''Staging''"
    for m
    by (simp_all add: mlf_promote_model_def mlf_register_model_def stage_name_def)
  show ?thesis
    unfolding deploy_def
    using assms(1,2,3,4,6) tag
    by (simp add: Let_def case_prod_beta nm)
qed

text \<open>
  C2. During deployment, once the winning model's version is registered, tagged and
  staged, and with a registry that carries out the promotion it is asked for: the
  version is in Production afterwards if and only if the unit test returned \<^verbatim>\<open>'OK'\<close>, that
  is, if and only if the staged model loaded, was wrapped and forecast exactly
  \<^verbatim>\<open>n_unit_test\<close> rows. After any other outcome of the unit test the version is in Staging
  and no other version has entered or left Production; after \<^verbatim>\<open>'OK'\<close> every version that was
  in Production before is Archived.
\<close>

theorem deploy_gate:
  assumes "winning_model_name self = Some winner"
    and "index_of winner (row_names (df_performances self)) = Some i"
    and "col_model_config (df_performances self) ! i = Some cfg"
    and "register_model env
           (''runs:/'' @ (case col_run_id (df_performances self) ! i of
                            None \<Rightarrow> ''None'' | Some r \<Rightarrow> r) @ ''/model'')
           (key_code self) = None"
    and "''model_flavor'' \<in> fst ` set cfg \<longrightarrow>
           set_model_tag env (config_get cfg ''model_flavor'' []) = None"
    and "promote_model env ''staging'' = None"
    and "promote_model env ''production'' = None"
  shows
    "(stage_of (deploy env self mlf) (next_version mlf) = Production \<longleftrightarrow>
        unit_test env self (key_code self) ''Staging'' = Some ''OK'') \<and>
     (unit_test env self (key_code self) ''Staging'' = Some ''OK'' \<longleftrightarrow>
        (\<exists>model flv krns fc.
           load_model env (''models:/'' @ key_code self @ ''/'' @ ''Staging'') = Inr (model, flv) \<and>
           model_generation env flv [] (Some model) = Some krns \<and>
           predict krns (n_unit_test self) (Some (today env + 1)) True = Inr (Some fc) \<and>
           int (length fc) = n_unit_test self)) \<and>
     (unit_test env self (key_code self) ''Staging'' \<noteq> Some ''OK'' \<longrightarrow>
        stage_of (deploy env self mlf) (next_version mlf) = Staging \<and>
        (\<forall>u. u \<noteq> next_version mlf \<longrightarrow>
           (stage_of (deploy env self mlf) u = Production \<longleftrightarrow> stage_of mlf u = Production))) \<and>
     (unit_test env self (key_code self) ''Staging'' = Some ''OK'' \<longrightarrow>
        (\<forall>u. u \<noteq> next_version mlf \<and> stage_of mlf u = Production \<longrightarrow>
           stage_of (deploy env self mlf) u = Archived))"
proof -
  note d = deploy_reaches_gate[OF assms(1-6), of mlf]
  have gate: "unit_test env self (key_code self) ''Staging'' = Some ''OK'' \<longleftrightarrow>
        (\<exists>model flv krns fc.
           load_model env (''models:/'' @ key_code self @ ''/'' @ ''Staging'') = Inr (model, flv) \<and>
           model_generation env flv [] (Some model) = Some krns \<and>
           predict krns (n_unit_test self) (Some (today env + 1)) True = Inr (Some fc) \<and>
           int (length fc) = n_unit_test self)"
    by (rule unit_test_OK_iff)
  have promoted: "stage_of (deploy env self mlf) (next_version mlf) = Production \<and>
      (\<forall>u. u \<noteq> next_version mlf \<and> stage_of mlf u = Production \<longrightarrow>
           stage_of (deploy env self mlf) u = Archived)"
    if "unit_test env self (key_code self) ''Staging'' = Some ''OK''"
    using that
    by (simp add: d assms(7) Let_def mlf_register_model_def mlf_promote_model_def)
  have kept: "stage_of (deploy env self mlf) (next_version mlf) = Staging \<and>
      (\<forall>u. u \<noteq> next_version mlf \<longrightarrow>
           (stage_of (deploy env self mlf) u = Production \<longleftrightarrow> stage_of mlf u = Production))"
    if "unit_test env self (key_code self) ''Staging'' \<noteq> Some ''OK''"
    using that
    by (simp add: d Let_def mlf_register_model_def mlf_promote_model_def)
  have first: "stage_of (deploy env self mlf) (next_version mlf) = Production \<longleftrightarrow>
        unit_test env self (key_code self) ''Staging'' = Some ''OK''"
    using promoted kept by (cases "unit_test env self (key_code self) ''Staging'' = Some ''OK''") auto
  show ?thesis
    using first gate promoted kept by blast
qed

lemma demo_unit_test:
  "unit_test demo_registry_env demo_winner ''k'' ''Staging'' = Some ''KO''"
  "unit_test demo_registry_env (demo_winner\<lparr>n_unit_test := 3\<rparr>) ''k'' ''Staging'' = Some ''OK''"
  by (simp_all add: unit_test_def demo_registry_env_def demo_env_def model_generation_def
      demo_backend_def demo_winner_def demo_modeler_def)

theorem deploy_gate_witness:
  "winning_model_name demo_winner = Some ''prophet_1'' \<and>
   index_of ''prophet_1'' (row_names (df_performances demo_winner)) = Some 0 \<and>
   col_model_config (df_performances demo_winner) ! 0 = Some [(''model_flavor'', ''prophet'')] \<and>
   next_version demo_mlf = 2 \<and> stage_of demo_mlf 1 = Production \<and>
   unit_test demo_registry_env demo_winner ''k'' ''Staging'' = Some ''KO'' \<and>
   stage_of (deploy demo_registry_env demo_winner demo_mlf) 2 = Staging \<and>
   stage_of (deploy demo_registry_env demo_winner demo_mlf) 1 = Production \<and>
   unit_test demo_registry_env (demo_winner\<lparr>n_unit_test := 3\<rparr>) ''k'' ''Staging'' = Some ''OK'' \<and>
   stage_of (deploy demo_registry_env (demo_winner\<lparr>n_unit_test := 3\<rparr>) demo_mlf) 2 = Production \<and>
   stage_of (deploy demo_registry_env (demo_winner\<lparr>n_unit_test := 3\<rparr>) demo_mlf) 1 = Archived"
proof -
  have w: "winning_model_name (demo_winner\<lparr>n_unit_test := n\<rparr>) = Some ''prophet_1''"
    "index_of ''prophet_1'' (row_names (df_performances (demo_winner\<lparr>n_unit_test := n\<rparr>))) = Some 0"
    "col_model_config (df_performances (demo_winner\<lparr>n_unit_test := n\<rparr>)) ! 0
       = Some [(''model_flavor'', ''prophet'')]"
    "key_code (demo_winner\<lparr>n_unit_test := n\<rparr>) = ''k''"
    for n
    by (simp_all add: demo_winner_def demo_performances_def demo_modeler_def)
  have e: "register_model demo_registry_env uri name = None"
    "set_model_tag demo_registry_env v = None"
    "promote_model demo_registry_env stg = None"
    for uri name v stg
    by (simp_all add: demo_registry_env_def demo_env_def)
  have r: "next_version demo_mlf = 2" "stage_of demo_mlf 1 = Production"
    by (simp_all add: demo_mlf_def)
  have same: "demo_winner\<lparr>n_unit_test := 2\<rparr> = demo_winner"
    by (simp add: demo_winner_def demo_modeler_def)
  have g2: "''model_flavor'' \<in> fst ` set [(''model_flavor'', ''prophet'')] \<longrightarrow>
       set_model_tag demo_registry_env (config_get [(''model_flavor'', ''prophet'')] ''model_flavor'' []) = None"
    by (simp add: e)
  show ?thesis
    using deploy_gate[OF w(1)[of 2] w(2)[of 2] w(3)[of 2] e(1) g2 e(3) e(3), of demo_mlf]
      deploy_gate[OF w(1)[of 3] w(2)[of 3] w(3)[of 3] e(1) g2 e(3) e(3), of demo_mlf]
      demo_unit_test w[of 2] r
    by (simp add: same w(4))
qed

subsection \<open>Training\<close>

lemma index_of_Some: "index_of x xs = Some i \<Longrightarrow> x \<in> set xs"
  by (induction xs arbitrary: i) (auto split: if_splits)

lemma loc_set_Inr:
  assumes "loc_set df name cfg rid vals = Inr df'"
  shows "length (metric_cols df') = length (metric_cols df)"
    and "col_error_avg df' = None \<longleftrightarrow> col_error_avg df = None"
    and "set (row_names df) \<subseteq> set (row_names df')"
    and "name \<in> set (row_names df')"
  using assms
  by (auto simp: loc_set_def Let_def min_def dest: index_of_Some split: option.splits if_splits)

lemma log_metrics_runs:
  "active_run (snd (log_metrics env rid evals mlf)) = active_run mlf \<and>
   ended_runs (snd (log_metrics env rid evals mlf)) = ended_runs mlf"
  by (induction evals arbitrary: mlf) (auto split: option.splits)

lemma train_model_cases:
  "(\<exists>e. start_run env name = Inl e \<and>
        train_model env name model (self, mlf) = (Some e, self, mlf)) \<or>
   (\<exists>rid e lg. start_run env name = Inr rid \<and>
        train_model env name model (self, mlf) =
          (Some e, self\<lparr>logger := logger self @ lg\<rparr>, mlf_start_run rid mlf)) \<or>
   (\<exists>rid lg df c vals evals err. start_run env name = Inr rid \<and>
        loc_set (df_performances self) name c (Some rid) vals = Inr df \<and>
        train_model env name model (self, mlf) =
          (err, self\<lparr>logger := logger self @ lg, df_performances := df\<rparr>,
           (if err = None then mlf_end_run else id)
             (snd (log_metrics env rid evals (mlf_start_run rid mlf)))))"
proof (cases "start_run env name")
  case (Inl e)
  then have "train_model env name model (self, mlf) = (Some e, self, mlf)"
    by (simp add: train_model_def)
  then show ?thesis by (intro disjI1 exI[of _ e] conjI Inl)
next
  case (Inr rid)
  have early: ?thesis if "train_model env name model (self, mlf) =
          (Some e, self\<lparr>logger := logger self @ lg\<rparr>, mlf_start_run rid mlf)" for e lg
    by (rule disjI2, rule disjI1, rule exI[of _ rid], rule exI[of _ e], rule exI[of _ lg],
        rule conjI, rule Inr, rule that)
  have early0: ?thesis if "train_model env name model (self, mlf) =
          (Some e, self, mlf_start_run rid mlf)" for e
  proof -
    have "self\<lparr>logger := logger self @ []\<rparr> = self" by simp
    then show ?thesis using early[of e "[]"] that by (simp only:)
  qed
  show ?thesis
  proof (cases model)
    case None
    then show ?thesis by (intro early0[of AttributeError]) (simp add: train_model_def Inr)
  next
    case mdl: (Some m)
    show ?thesis
    proof (cases "preprocess m")
      case (Some e)
      then show ?thesis by (intro early0[of e]) (simp add: train_model_def Inr mdl)
    next
      case p1: None
      show ?thesis
      proof (cases "log_params m")
        case (Some e)
        then show ?thesis by (intro early0[of e]) (simp add: train_model_def Inr mdl p1)
      next
        case p2: None
        show ?thesis
        proof (cases "fit m")
          case (Some e)
          then show ?thesis by (intro early0[of e]) (simp add: train_model_def Inr mdl p1 p2)
        next
          case p3: None
          show ?thesis
          proof (cases "log_model m")
            case (Some e)
            then show ?thesis by (intro early0[of e]) (simp add: train_model_def Inr mdl p1 p2 p3)
          next
            case p4: None
            show ?thesis
            proof (cases "test_data self")
              case None
              then show ?thesis by (intro early0[of TypeError]) (simp add: train_model_def Inr mdl p1 p2 p3 p4)
            next
              case td: (Some test)
              show ?thesis
              proof (cases "predict m (n_test self) (min_date test) True")
                case (Inl e)
                then show ?thesis by (intro early0[of e]) (simp add: train_model_def Inr mdl p1 p2 p3 p4 td)
              next
                case pr0: (Inr res)
                show ?thesis
                proof (cases res)
                  case None
                  then show ?thesis using pr0 by (intro early0[of TypeError]) (simp add: train_model_def Inr mdl p1 p2 p3 p4 td)
                next
                  case (Some pred)
                  then have pr: "predict m (n_test self) (min_date test) True = Inr (Some pred)"
                    using pr0 by simp
                  obtain lg train_evals where ev: "evaluate_model (map obs_metric test) (map f_value pred)
                        (fcst_competition_metrics self) = (lg, train_evals)"
                    by (cases "evaluate_model (map obs_metric test) (map f_value pred)
                        (fcst_competition_metrics self)") auto
                  show ?thesis
                  proof (cases "map_of (models_config self) name")
                    case None
                    then show ?thesis by (intro early[of KeyError lg]) (simp add: train_model_def Inr mdl p1 p2 p3 p4 td pr ev)
                  next
                    case mc: (Some cfg)
                    show ?thesis
                    proof (cases train_evals)
                      case None
                      then show ?thesis by (intro early[of AttributeError lg]) (simp add: train_model_def Inr mdl p1 p2 p3 p4 td pr ev mc)
                    next
                      case te: (Some evals)
                      show ?thesis
                      proof (cases "loc_set (df_performances self) name (Some cfg) (Some rid) (map snd evals)")
                        case (Inl e)
                        then show ?thesis by (intro early[of e lg]) (simp add: train_model_def Inr mdl p1 p2 p3 p4 td pr ev mc te)
                      next
                        case ls: (Inr df)
                        obtain err mlf2 where lm: "log_metrics env rid evals (mlf_start_run rid mlf) = (err, mlf2)"
                          by (cases "log_metrics env rid evals (mlf_start_run rid mlf)") auto
                        have "train_model env name model (self, mlf) =
                            (err, self\<lparr>logger := logger self @ lg, df_performances := df\<rparr>,
                             (if err = None then mlf_end_run else id)
                               (snd (log_metrics env rid evals (mlf_start_run rid mlf))))"
                          by (cases err) (simp_all add: train_model_def Inr mdl p1 p2 p3 p4 td pr ev mc te ls lm)
                        note tm = this
                        show ?thesis
                        by (rule disjI2, rule disjI2, rule exI[of _ rid], rule exI[of _ lg], rule exI[of _ df],
                            rule exI[of _ "Some cfg"], rule exI[of _ "map snd evals"],
                            rule exI[of _ evals], rule exI[of _ err])
                          (intro conjI Inr ls tm)
                      qed
                    qed
                  qed
                qed
              qed
            qed
          qed
        qed
      qed
    qed

  qed
qed

lemma set_ended_runs_end_run:
  "set (ended_runs (mlf_end_run m)) = set (ended_runs m) \<union> set_option (active_run m)"
  by (auto simp: mlf_end_run_def split: option.splits)

lemma active_run_end_run: "active_run (mlf_end_run m) = None"
  by (simp add: mlf_end_run_def split: option.splits)

lemma start_run_fields:
  "active_run (mlf_start_run rid m) = Some rid" "ended_runs (mlf_start_run rid m) = ended_runs m"
  by (simp_all add: mlf_start_run_def)

lemma train_one_mlf:
  "\<exists>m'. snd (train_one env nm (self, mlf)) = mlf_end_run m' \<and>
        ended_runs m' = ended_runs mlf \<and>
        active_run m' = (case start_run env (fst nm) of Inl e \<Rightarrow> active_run mlf
                         | Inr rid \<Rightarrow> Some rid)"
proof -
  from train_model_cases[of env "fst nm" "snd nm" self mlf]
  consider (a) e where "start_run env (fst nm) = Inl e"
      "train_model env (fst nm) (snd nm) (self, mlf) = (Some e, self, mlf)"
    | (b) rid e lg where "start_run env (fst nm) = Inr rid"
      "train_model env (fst nm) (snd nm) (self, mlf) =
          (Some e, self\<lparr>logger := logger self @ lg\<rparr>, mlf_start_run rid mlf)"
    | (c) rid lg df evals err where "start_run env (fst nm) = Inr rid"
      "train_model env (fst nm) (snd nm) (self, mlf) =
          (err, self\<lparr>logger := logger self @ lg, df_performances := df\<rparr>,
           (if err = None then mlf_end_run else id)
             (snd (log_metrics env rid evals (mlf_start_run rid mlf))))"
    by blast
  then show ?thesis
  proof cases
    case a
    show ?thesis
      by (rule exI[of _ mlf]) (simp add: train_one_def a)
  next
    case b
    show ?thesis
      by (rule exI[of _ "mlf_start_run rid mlf"]) (simp add: train_one_def b start_run_fields)
  next
    case c
    show ?thesis
      by (rule exI[of _ "snd (log_metrics env rid evals (mlf_start_run rid mlf))"], cases err)
        (simp_all add: train_one_def c log_metrics_runs start_run_fields)
  qed
qed

lemma train_one_self:
  "\<exists>lg. logger (fst (train_one env nm (self, mlf))) = logger self @ lg \<and>
     (\<forall>e. fst (train_model env (fst nm) (snd nm) (self, mlf)) = Some e \<longrightarrow>
          ModelTrainingFailed (fst nm) e \<in> set lg) \<and>
     (fst (train_model env (fst nm) (snd nm) (self, mlf)) = None \<longrightarrow>
          fst nm \<in> set (row_names (df_performances (fst (train_one env nm (self, mlf)))))) \<and>
     set (row_names (df_performances self)) \<subseteq>
       set (row_names (df_performances (fst (train_one env nm (self, mlf)))))"
proof -
  from train_model_cases[of env "fst nm" "snd nm" self mlf]
  consider (a) e where
      "train_model env (fst nm) (snd nm) (self, mlf) = (Some e, self, mlf)"
    | (b) rid e lg where
      "train_model env (fst nm) (snd nm) (self, mlf) =
          (Some e, self\<lparr>logger := logger self @ lg\<rparr>, mlf_start_run rid mlf)"
    | (c) rid lg df c vals evals err where
      "loc_set (df_performances self) (fst nm) c (Some rid) vals = Inr df"
      "train_model env (fst nm) (snd nm) (self, mlf) =
          (err, self\<lparr>logger := logger self @ lg, df_performances := df\<rparr>,
           (if err = None then mlf_end_run else id)
             (snd (log_metrics env rid evals (mlf_start_run rid mlf))))"
    by blast
  then show ?thesis
  proof cases
    case a
    show ?thesis
      by (rule exI[of _ "[ModelTrainingFailed (fst nm) e]"]) (simp add: train_one_def a)
  next
    case b
    show ?thesis
      by (rule exI[of _ "lg @ [ModelTrainingFailed (fst nm) e]"]) (simp add: train_one_def b)
  next
    case c
    note ls = loc_set_Inr(3,4)[OF c(1)]
    show ?thesis
    proof (cases err)
      case None
      show ?thesis
        using ls by (intro exI[of _ lg]) (simp add: train_one_def c None)
    next
      case (Some e)
      show ?thesis
        using ls by (intro exI[of _ "lg @ [ModelTrainingFailed (fst nm) e]"])
          (simp add: train_one_def c Some)
    qed
  qed
qed

lemma training_loop_append:
  "training_loop env (xs @ ys) st = training_loop env ys (training_loop env xs st)"
  by (induction xs arbitrary: st) simp_all

lemma train_one_grows:
  "set (logger (fst st)) \<subseteq> set (logger (fst (train_one env nm st)))"
  "set (row_names (df_performances (fst st))) \<subseteq>
     set (row_names (df_performances (fst (train_one env nm st))))"
  "set (ended_runs (snd st)) \<subseteq> set (ended_runs (snd (train_one env nm st)))"
  "active_run (snd (train_one env nm st)) = None"
proof -
  obtain self mlf where st: "st = (self, mlf)"
    by (cases st) auto
  from train_one_self[of env nm self mlf] obtain lg where
    lg: "logger (fst (train_one env nm (self, mlf))) = logger self @ lg"
    and rows: "set (row_names (df_performances self)) \<subseteq>
       set (row_names (df_performances (fst (train_one env nm (self, mlf)))))"
    by auto
  from train_one_mlf[of env nm self mlf] obtain m' where
    m': "snd (train_one env nm (self, mlf)) = mlf_end_run m'" "ended_runs m' = ended_runs mlf"
    by auto
  show "set (logger (fst st)) \<subseteq> set (logger (fst (train_one env nm st)))"
    unfolding st using lg by simp
  show "set (row_names (df_performances (fst st))) \<subseteq>
     set (row_names (df_performances (fst (train_one env nm st))))"
    unfolding st using rows by simp
  show "set (ended_runs (snd st)) \<subseteq> set (ended_runs (snd (train_one env nm st)))"
    unfolding st m' by (simp add: set_ended_runs_end_run m'(2))
  show "active_run (snd (train_one env nm st)) = None"
    unfolding st m' by (rule active_run_end_run)
qed

lemma training_loop_grows:
  "set (logger (fst st)) \<subseteq> set (logger (fst (training_loop env ms st)))"
  "set (row_names (df_performances (fst st))) \<subseteq>
     set (row_names (df_performances (fst (training_loop env ms st))))"
  "set (ended_runs (snd st)) \<subseteq> set (ended_runs (snd (training_loop env ms st)))"
  "active_run (snd st) = None \<Longrightarrow> active_run (snd (training_loop env ms st)) = None"
proof (induction ms arbitrary: st)
  case Nil
  { case 1 show ?case by simp }
  { case 2 show ?case by simp }
  { case 3 show ?case by simp }
  { case 4 then show ?case by simp }
next
  case (Cons nm ms)
  { case 1 show ?case
      using Cons.IH(1)[of "train_one env nm st"] train_one_grows(1)[of st env nm] by auto }
  { case 2 show ?case
      using Cons.IH(2)[of "train_one env nm st"] train_one_grows(2)[of st env nm] by auto }
  { case 3 show ?case
      using Cons.IH(3)[of "train_one env nm st"] train_one_grows(3)[of st env nm] by auto }
  { case 4 show ?case
      using Cons.IH(4)[of "train_one env nm st"] train_one_grows(4)[of env nm st] by simp }
qed

lemma train_one_processed:
  "(\<forall>e. fst (train_model env (fst nm) (snd nm) st) = Some e \<longrightarrow>
        ModelTrainingFailed (fst nm) e \<in> set (logger (fst (train_one env nm st)))) \<and>
   (fst (train_model env (fst nm) (snd nm) st) = None \<longrightarrow>
        fst nm \<in> set (row_names (df_performances (fst (train_one env nm st))))) \<and>
   (\<forall>rid. start_run env (fst nm) = Inr rid \<longrightarrow>
        rid \<in> set (ended_runs (snd (train_one env nm st))))"
proof -
  obtain self mlf where st: "st = (self, mlf)"
    by (cases st) auto
  from train_one_self[of env nm self mlf] obtain lg where
    lg: "logger (fst (train_one env nm (self, mlf))) = logger self @ lg"
    and failed: "\<forall>e. fst (train_model env (fst nm) (snd nm) (self, mlf)) = Some e \<longrightarrow>
          ModelTrainingFailed (fst nm) e \<in> set lg"
    and ok: "fst (train_model env (fst nm) (snd nm) (self, mlf)) = None \<longrightarrow>
          fst nm \<in> set (row_names (df_performances (fst (train_one env nm (self, mlf)))))"
    by auto
  from train_one_mlf[of env nm self mlf] obtain m' where
    m': "snd (train_one env nm (self, mlf)) = mlf_end_run m'"
    and act: "active_run m' = (case start_run env (fst nm) of Inl e \<Rightarrow> active_run mlf
                         | Inr rid \<Rightarrow> Some rid)"
    by auto
  have "rid \<in> set (ended_runs (snd (train_one env nm (self, mlf))))"
    if "start_run env (fst nm) = Inr rid" for rid
    unfolding m' using act that by (simp add: set_ended_runs_end_run)
  then show ?thesis
    unfolding st using lg failed ok by auto
qed

lemma training_loop_all_processed:
  "\<forall>nm\<in>set ms.
     (\<exists>e. ModelTrainingFailed (fst nm) e \<in> set (logger (fst (training_loop env ms st)))) \<or>
     fst nm \<in> set (row_names (df_performances (fst (training_loop env ms st))))"
proof (induction ms arbitrary: st)
  case Nil
  show ?case by simp
next
  case (Cons nm ms)
  let ?st = "train_one env nm st"
  have "(\<exists>e. ModelTrainingFailed (fst nm) e \<in> set (logger (fst ?st))) \<or>
     fst nm \<in> set (row_names (df_performances (fst ?st)))"
    using train_one_processed[of env nm st]
    by (cases "fst (train_model env (fst nm) (snd nm) st)") auto
  then have "(\<exists>e. ModelTrainingFailed (fst nm) e \<in> set (logger (fst (training_loop env ms ?st)))) \<or>
     fst nm \<in> set (row_names (df_performances (fst (training_loop env ms ?st))))"
    using training_loop_grows(1,2)[of ?st env ms] by blast
  then show ?case
    using Cons.IH[of ?st] by simp
qed

text \<open>
  C6. Take any model of the batch, with the models before it and those after it. The
  loop runs the iteration of that model on the state the earlier iterations left and then
  goes on with the later models. Whatever exception leaves the model's pipeline, at
  whichever step (starting the run, preprocessing, logging the parameters, fitting,
  logging the model, predicting, evaluating, recording the row, logging the metrics), is
  logged under the model's name; a pipeline that raises nothing has its row in the
  performance table; the run that was started for the model is among the ended runs and
  no run is left open at the end; and every later model has in turn either its failure
  logged or its row recorded. (\<^verbatim>\<open>end_run\<close> in the handler is the tracking service's
  call, which closes the open run.)
\<close>

theorem training_loop_isolates_failures:
  assumes "models = before @ nm # after"
  shows "training_loop env models st =
           training_loop env after (train_one env nm (training_loop env before st)) \<and>
         (\<forall>e. fst (train_model env (fst nm) (snd nm) (training_loop env before st)) = Some e \<longrightarrow>
            ModelTrainingFailed (fst nm) e \<in> set (logger (fst (training_loop env models st)))) \<and>
         (fst (train_model env (fst nm) (snd nm) (training_loop env before st)) = None \<longrightarrow>
            fst nm \<in> set (row_names (df_performances (fst (training_loop env models st))))) \<and>
         (\<forall>rid. start_run env (fst nm) = Inr rid \<longrightarrow>
            rid \<in> set (ended_runs (snd (training_loop env models st)))) \<and>
         active_run (snd (training_loop env models st)) = None \<and>
         (\<forall>nm'\<in>set after.
            (\<exists>e. ModelTrainingFailed (fst nm') e
                   \<in> set (logger (fst (training_loop env models st)))) \<or>
            fst nm' \<in> set (row_names (df_performances (fst (training_loop env models st)))))"
proof -
  let ?st = "training_loop env before st"
  let ?st1 = "train_one env nm ?st"
  have final: "training_loop env models st = training_loop env after ?st1"
    unfolding assms by (simp add: training_loop_append)
  note grows = training_loop_grows[of ?st1 env after]
  note one = train_one_processed[of env nm ?st]
  have a: "\<forall>e. fst (train_model env (fst nm) (snd nm) ?st) = Some e \<longrightarrow>
            ModelTrainingFailed (fst nm) e \<in> set (logger (fst (training_loop env models st)))"
    unfolding final using one grows(1) by blast
  have b: "fst (train_model env (fst nm) (snd nm) ?st) = None \<longrightarrow>
            fst nm \<in> set (row_names (df_performances (fst (training_loop env models st))))"
    unfolding final using one grows(2) by blast
  have c: "\<forall>rid. start_run env (fst nm) = Inr rid \<longrightarrow>
            rid \<in> set (ended_runs (snd (training_loop env models st)))"
    unfolding final using one grows(3) by blast
  have d: "active_run (snd (training_loop env models st)) = None"
    unfolding final by (rule grows(4)) (rule train_one_grows(4))
  have e: "\<forall>nm'\<in>set after.
            (\<exists>e. ModelTrainingFailed (fst nm') e
                   \<in> set (logger (fst (training_loop env models st)))) \<or>
            fst nm' \<in> set (row_names (df_performances (fst (training_loop env models st))))"
    unfolding final by (rule training_loop_all_processed)
  show ?thesis
    using final a b c d e by blast
qed

lemma train_model_fit_fails:
  assumes "start_run env name = Inr rid" "preprocess m = None" "log_params m = None"
    "fit m = Some e"
  shows "fst (train_model env name (Some m) st) = Some e"
  using assms by (cases st) (simp add: train_model_def)

lemma demo_models:
  "create_all_models demo_env (models_config demo_modeler) =
     [(''prophet_1'', Some (demo_backend ''prophet'' 3 40))] @
     (''pmdarima_1'', Some ((demo_backend ''pmdarima'' 3 50)\<lparr>fit := Some ExternalFailure\<rparr>)) #
     [(''tensorflow_1'', Some (demo_backend ''tensorflow'' 2 50))]"
  by (simp add: create_all_models_def model_generation_def demo_env_def demo_modeler_def
      config_get_def)

lemma demo_training:
  "training demo_env (demo_modeler, demo_mlf) =
     training_loop demo_env (create_all_models demo_env (models_config demo_modeler))
       (train_test_split demo_modeler, demo_mlf)"
proof -
  have "models_config (train_test_split demo_modeler) = models_config demo_modeler"
    by (simp add: train_test_split_def train_test_split_try_def Let_def split: if_splits)
  then show ?thesis
    by (simp add: training_def demo_env_def Let_def)
qed

lemma demo_split:
  "train_test_split demo_modeler =
     demo_modeler\<lparr>train_data := Some (drop 3 (rev demo_series)),
                   test_data := Some (take 3 (rev demo_series))\<rparr>"
proof -
  have h: "n_test demo_modeler = 3" "data demo_modeler = demo_series" "length demo_series = 6"
    by (simp_all add: demo_modeler_def demo_series_def)
  show ?thesis
    using train_test_split_enough[of demo_modeler] by (simp add: h demo_sorted)
qed

lemma demo_prophet_evaluation:
  "\<exists>lg a b. evaluate_model [60, 50, 40] [40, 40, 40] [''rmse'', ''mape''] =
     (lg, Some [(''rmse'', a), (''mape'', b)])"
proof -
  have n1: "normalise_metric ''rmse'' = ''rmse''"
    by (simp add: normalise_metric_def lower_char_def)
  have n2: "normalise_metric ''mape'' = ''mape''"
    by (simp add: normalise_metric_def lower_char_def)
  show ?thesis
    by (simp add: evaluate_model_def n1 n2 supported_metrics_def rmse_def mape_def np_binop_def)
qed

lemma demo_prophet_trains:
  "fst (train_model demo_env ''prophet_1'' (Some (demo_backend ''prophet'' 3 40))
         (train_test_split demo_modeler, demo_mlf)) = None"
proof -
  obtain lg a b where ev: "evaluate_model [60, 50, 40] [40, 40, 40] [''rmse'', ''mape''] =
     (lg, Some [(''rmse'', a), (''mape'', b)])"
    using demo_prophet_evaluation by blast
  have t: "test_data (train_test_split demo_modeler) = Some (take 3 (rev demo_series))"
    "n_test (train_test_split demo_modeler) = 3"
    "fcst_competition_metrics (train_test_split demo_modeler) = [''rmse'', ''mape'']"
    "models_config (train_test_split demo_modeler) = models_config demo_modeler"
    "df_performances (train_test_split demo_modeler) = empty_performances [''rmse'', ''mape'']"
    unfolding demo_split by (simp_all add: demo_modeler_def)
  have tv: "map obs_metric (take 3 (rev demo_series)) = [60, 50, 40]"
    by (simp add: demo_series_def)
  have pv: "predict (demo_backend ''prophet'' 3 40) n d fo =
      Inr (Some [\<lparr>f_date = 0, f_value = 40\<rparr>, \<lparr>f_date = 1, f_value = 40\<rparr>,
                 \<lparr>f_date = 2, f_value = 40\<rparr>])" for n d fo
    by (simp add: demo_backend_def upt_rec)
  have b: "preprocess (demo_backend ''prophet'' 3 40) = None"
    "log_params (demo_backend ''prophet'' 3 40) = None"
    "fit (demo_backend ''prophet'' 3 40) = None"
    "log_model (demo_backend ''prophet'' 3 40) = None"
    by (simp_all add: demo_backend_def)
  have e: "start_run demo_env ''prophet_1'' = Inr ''run_prophet_1''"
    "log_metric demo_env r k v = None" for r k v
    by (simp_all add: demo_env_def)
  have mc: "map_of (models_config demo_modeler) ''prophet_1'' = Some []"
    by (simp add: demo_modeler_def)
  show ?thesis
    by (simp add: train_model_def e b t tv pv ev mc loc_set_def empty_performances_def Let_def)
qed

theorem training_loop_isolates_failures_witness:
  "create_all_models demo_env (models_config demo_modeler) =
     [(''prophet_1'', Some (demo_backend ''prophet'' 3 40))] @
     (''pmdarima_1'', Some ((demo_backend ''pmdarima'' 3 50)\<lparr>fit := Some ExternalFailure\<rparr>)) #
     [(''tensorflow_1'', Some (demo_backend ''tensorflow'' 2 50))] \<and>
   fst (train_model demo_env ''pmdarima_1''
          (Some ((demo_backend ''pmdarima'' 3 50)\<lparr>fit := Some ExternalFailure\<rparr>))
          (training_loop demo_env [(''prophet_1'', Some (demo_backend ''prophet'' 3 40))]
             (train_test_split demo_modeler, demo_mlf))) = Some ExternalFailure \<and>
   start_run demo_env ''pmdarima_1'' = Inr ''run_pmdarima_1'' \<and>
   ModelTrainingFailed ''pmdarima_1'' ExternalFailure
     \<in> set (logger (fst (training demo_env (demo_modeler, demo_mlf)))) \<and>
   ''run_pmdarima_1'' \<in> set (ended_runs (snd (training demo_env (demo_modeler, demo_mlf)))) \<and>
   active_run (snd (training demo_env (demo_modeler, demo_mlf))) = None \<and>
   ((\<exists>e. ModelTrainingFailed ''tensorflow_1'' e
           \<in> set (logger (fst (training demo_env (demo_modeler, demo_mlf))))) \<or>
    ''tensorflow_1''
      \<in> set (row_names (df_performances (fst (training demo_env (demo_modeler, demo_mlf)))))) \<and>
   fst (train_model demo_env ''prophet_1'' (Some (demo_backend ''prophet'' 3 40))
          (train_test_split demo_modeler, demo_mlf)) = None \<and>
   ''prophet_1''
     \<in> set (row_names (df_performances (fst (training demo_env (demo_modeler, demo_mlf)))))"
proof -
  have sr: "start_run demo_env ''pmdarima_1'' = Inr ''run_pmdarima_1''"
    by (simp add: demo_env_def)
  have fails: "fst (train_model demo_env ''pmdarima_1''
          (Some ((demo_backend ''pmdarima'' 3 50)\<lparr>fit := Some ExternalFailure\<rparr>)) st)
        = Some ExternalFailure" for st
    by (rule train_model_fit_fails[OF sr]) (simp_all add: demo_backend_def)
  have first: "create_all_models demo_env (models_config demo_modeler) =
     [] @ (''prophet_1'', Some (demo_backend ''prophet'' 3 40)) #
     [(''pmdarima_1'', Some ((demo_backend ''pmdarima'' 3 50)\<lparr>fit := Some ExternalFailure\<rparr>)),
      (''tensorflow_1'', Some (demo_backend ''tensorflow'' 2 50))]"
    using demo_models by simp
  have recorded: "''prophet_1''
     \<in> set (row_names (df_performances (fst (training demo_env (demo_modeler, demo_mlf)))))"
    using training_loop_isolates_failures[OF first, of demo_env
        "(train_test_split demo_modeler, demo_mlf)", THEN conjunct2] demo_prophet_trains
    unfolding demo_training
    by simp
  show ?thesis
    using training_loop_isolates_failures[OF demo_models, of demo_env
        "(train_test_split demo_modeler, demo_mlf)", THEN conjunct2]
      sr fails recorded demo_prophet_trains
    unfolding demo_training
    by (simp add: demo_models)
qed

end
